theory Spec2Isabelle
  imports Complex_Main
begin

section \<open>Exceptions\<close>

text \<open>
  The classes derived from Python's \<open>Exception\<close> that the modelled code names or that
  its library calls raise. \<open>Custom\<close> stands for any other direct subclass of
  \<open>Exception\<close>. \<open>KeyboardInterrupt\<close> derives from \<open>BaseException\<close> only; it is not a
  value of this type and is modelled where it can arrive (see \<open>interrupt\<close> below).
\<close>

datatype exn =
    OSError | SSLError | ConnectionError | TimeoutError
  | IMAP4_error | IMAP4_abort | IMAP4_readonly
  | ValueError | JSONDecodeError | UnicodeError | UnicodeDecodeError
  | ArithmeticError | OverflowError
  | LookupError | KeyError | IndexError
  | TypeError | AttributeError | RuntimeError
  | Custom string

text \<open>The direct base class, \<open>None\<close> when that is \<open>Exception\<close> itself.\<close>

fun base :: "exn \<Rightarrow> exn option" where
  "base SSLError = Some OSError"
| "base ConnectionError = Some OSError"
| "base TimeoutError = Some OSError"
| "base IMAP4_abort = Some IMAP4_error"
| "base IMAP4_readonly = Some IMAP4_abort"
| "base JSONDecodeError = Some ValueError"
| "base UnicodeError = Some ValueError"
| "base UnicodeDecodeError = Some UnicodeError"
| "base OverflowError = Some ArithmeticError"
| "base KeyError = Some LookupError"
| "base IndexError = Some LookupError"
| "base _ = None"

text \<open>\<open>isinstance e c\<close>: an \<open>except c\<close> clause catches \<open>e\<close>. No chain is longer than two.\<close>

definition isinstance :: "exn \<Rightarrow> exn \<Rightarrow> bool" where
  "isinstance e c =
     (e = c \<or> (case base e of None \<Rightarrow> False
                | Some p \<Rightarrow> p = c \<or> (case base p of None \<Rightarrow> False | Some q \<Rightarrow> q = c)))"

section \<open>EmailPoller: fetching and one poll\<close>

text \<open>
  What the IMAP session does during one call of \<open>get_unread_emails\<close>: each library call
  either returns or raises. \<open>search_unseen\<close> returns the status and the ids of
  \<open>messages[0].split()\<close>; \<open>fetch_rfc822\<close> returns the status and the message parsed from
  \<open>msg_data[0][1]\<close> (a raise there covers the fetch, the indexing, the parsing and the
  decoding of the id).
\<close>

record 'm mailbox =
  select_inbox :: "exn option"
  search_unseen :: "exn + (string \<times> string list)"
  fetch_rfc822 :: "string \<Rightarrow> exn + (string \<times> 'm)"

text \<open>The first \<open>except\<close> clause of \<open>get_unread_emails\<close>.\<close>

definition connection_error :: "exn \<Rightarrow> bool" where
  "connection_error e =
     (isinstance e SSLError \<or> isinstance e IMAP4_abort \<or>
      isinstance e ConnectionError \<or> isinstance e OSError)"

text \<open>The \<open>for email_id in email_ids\<close> loop; \<open>Inl\<close> is an exception leaving the loop.\<close>

fun fetch_all :: "(string \<Rightarrow> exn + (string \<times> 'm)) \<Rightarrow> string list \<Rightarrow> (string \<times> 'm) list
    \<Rightarrow> exn + (string \<times> 'm) list" where
  "fetch_all f [] emails = Inr emails"
| "fetch_all f (email_id # ids) emails =
     (case f email_id of
        Inl e \<Rightarrow> Inl e
      | Inr (status, email_message) \<Rightarrow>
          if status \<noteq> ''OK'' then fetch_all f ids emails
          else fetch_all f ids (emails @ [(email_id, email_message)]))"

text \<open>The \<open>try\<close> block of \<open>get_unread_emails\<close>.\<close>

definition fetch_unseen :: "'m mailbox \<Rightarrow> exn + (string \<times> 'm) list" where
  "fetch_unseen mb =
     (case select_inbox mb of
        Some e \<Rightarrow> Inl e
      | None \<Rightarrow>
         (case search_unseen mb of
            Inl e \<Rightarrow> Inl e
          | Inr (status, email_ids) \<Rightarrow>
              if status \<noteq> ''OK'' then Inr []
              else if email_ids = [] then Inr []
              else fetch_all (fetch_rfc822 mb) email_ids []))"

text \<open>\<open>get_unread_emails\<close>: \<open>None\<close> is Python's \<open>None\<close>, the signal to reconnect.\<close>

definition get_unread_emails :: "'m mailbox \<Rightarrow> (string \<times> 'm) list option" where
  "get_unread_emails mb =
     (case fetch_unseen mb of
        Inr emails \<Rightarrow> Some emails
      | Inl e \<Rightarrow> if connection_error e then None else Some [])"

text \<open>
  The callbacks of one poll: \<open>handler\<close> is \<open>callback\<close> (\<open>Some e\<close>: it raises \<open>e\<close>),
  \<open>is_processed\<close> is \<open>is_processed_callback\<close> (\<open>None\<close> when not given),
  \<open>subject_of\<close> is the reading and decoding of the Subject header.
\<close>

record 'm callbacks =
  handler :: "string \<Rightarrow> 'm \<Rightarrow> exn option"
  is_processed :: "(string \<Rightarrow> exn + bool) option"
  subject_of :: "'m \<Rightarrow> exn + string"

text \<open>
  \<open>is_processed_callback and is_processed_callback(email_id)\<close>, and the
  \<open>for email_id, email_message in emails\<close> loop of \<open>poll\<close>. The accumulator is the
  list of ids the handler was called with; \<open>Inl\<close> is an exception that reaches the outer
  \<open>except Exception\<close> of \<open>poll\<close>, with the calls made so far.
\<close>

definition already_processed :: "'m callbacks \<Rightarrow> string \<Rightarrow> exn + bool" where
  "already_processed cb email_id =
     (case is_processed cb of None \<Rightarrow> Inr False | Some f \<Rightarrow> f email_id)"

fun deliver :: "'m callbacks \<Rightarrow> (string \<times> 'm) list \<Rightarrow> string list \<Rightarrow> (exn \<times> string list) + string list" where
  "deliver cb [] called = Inr called"
| "deliver cb ((email_id, email_message) # emails) called =
     (case already_processed cb email_id of
        Inl e \<Rightarrow> Inl (e, called)
      | Inr True \<Rightarrow> deliver cb emails called
      | Inr False \<Rightarrow>
         (case subject_of cb email_message of
            Inl e \<Rightarrow> Inl (e, called)
          | Inr subject \<Rightarrow>
             (case handler cb email_id email_message of
                None \<Rightarrow> deliver cb emails (called @ [email_id])
              | Some e \<Rightarrow> deliver cb emails (called @ [email_id]))))"

text \<open>\<open>poll\<close>: the returned flag and the ids the handler was called with.\<close>

definition poll :: "'m mailbox \<Rightarrow> 'm callbacks \<Rightarrow> bool \<times> string list" where
  "poll mb cb =
     (case get_unread_emails mb of
        None \<Rightarrow> (False, [])
      | Some emails \<Rightarrow>
          if emails = [] then (True, [])
          else (case deliver cb emails [] of
                  Inr called \<Rightarrow> (True, called)
                | Inl (e, called) \<Rightarrow> (False, called)))"

section \<open>EmailPoller: the polling loop\<close>

text \<open>
  \<open>time.sleep\<close> raises \<open>ValueError\<close> on a negative argument; otherwise it returns, unless
  Ctrl+C arrives while it sleeps.
\<close>

datatype effect = Done | Throws exn | Interrupted

definition time_sleep :: "int \<Rightarrow> bool \<Rightarrow> effect" where
  "time_sleep secs ctrl_c =
     (if secs < 0 then Throws ValueError else if ctrl_c then Interrupted else Done)"

text \<open>Where Ctrl+C arrives during one cycle of the loop, if it does.\<close>

datatype interrupt = DuringPoll | DuringSleep | DuringHandlerSleep

datatype nap = Backoff int | Interval int

text \<open>
  The poller's \<open>is_running\<close> and \<open>max_retry_delay\<close>, the locals of \<open>start_polling\<close>, and a
  log of what the loop did: the arguments of \<open>time.sleep\<close> in order and the number of
  calls of \<open>connect\<close>.
\<close>

record polling =
  is_running :: bool
  max_retry_delay :: int
  poll_count :: int
  consecutive_failures :: int
  retry_delay :: int
  slept :: "nap list"
  connects :: nat

text \<open>
  One cycle of the environment: the mailbox and callbacks the poll meets, whether
  \<open>connect\<close> succeeds, where Ctrl+C arrives, and whether \<open>stop_polling\<close> is called
  during the cycle. Printing is taken not to raise.
\<close>

record 'm cycle =
  inbox :: "'m mailbox"
  hooks :: "'m callbacks"
  connect_ok :: bool
  ctrl_c :: "interrupt option"
  stop_requested :: bool

datatype raised = KeyboardInterrupt | Error exn

datatype step = Continue polling | Break polling | Propagate raised

text \<open>The \<open>except Exception\<close> clause of the loop.\<close>

definition on_unexpected :: "polling \<Rightarrow> 'm cycle \<Rightarrow> step" where
  "on_unexpected s c =
     (let s1 = s\<lparr>consecutive_failures := consecutive_failures s + 1\<rparr>;
          s2 = s1\<lparr>slept := slept s1 @ [Backoff (retry_delay s1)]\<rparr>
      in case time_sleep (retry_delay s1) (ctrl_c c = Some DuringHandlerSleep) of
           Interrupted \<Rightarrow> Propagate KeyboardInterrupt
         | Throws e \<Rightarrow> Propagate (Error e)
         | Done \<Rightarrow>
            (let s3 = s2\<lparr>connects := connects s2 + 1\<rparr>
             in if \<not> connect_ok c then
                  (let s4 = s3\<lparr>retry_delay := min (retry_delay s3 * 2) (max_retry_delay s3)\<rparr>
                   in if consecutive_failures s4 \<ge> 5
                      then Break (s4\<lparr>is_running := False\<rparr>)
                      else Continue s4)
                else Continue s3))"

text \<open>The \<open>except KeyboardInterrupt\<close> clause of the loop.\<close>

definition on_interrupt :: "polling \<Rightarrow> step" where
  "on_interrupt s = Break (s\<lparr>is_running := False\<rparr>)"

text \<open>The body of \<open>while self.is_running\<close>.\<close>

definition polling_cycle :: "int \<Rightarrow> polling \<Rightarrow> 'm cycle \<Rightarrow> step" where
  "polling_cycle interval s c =
     (let s1 = s\<lparr>poll_count := poll_count s + 1\<rparr>
      in if ctrl_c c = Some DuringPoll then on_interrupt s1
         else if \<not> fst (poll (inbox c) (hooks c)) then
           (let s2 = s1\<lparr>consecutive_failures := consecutive_failures s1 + 1\<rparr>;
                s3 = s2\<lparr>slept := slept s2 @ [Backoff (retry_delay s2)]\<rparr>
            in case time_sleep (retry_delay s2) (ctrl_c c = Some DuringSleep) of
                 Interrupted \<Rightarrow> on_interrupt s3
               | Throws e \<Rightarrow> on_unexpected s3 c
               | Done \<Rightarrow>
                  (let s4 = s3\<lparr>connects := connects s3 + 1\<rparr>
                   in if connect_ok c then
                        Continue (s4\<lparr>consecutive_failures := 0, retry_delay := 5\<rparr>)
                      else
                        (let s5 = s4\<lparr>retry_delay := min (retry_delay s4 * 2) (max_retry_delay s4)\<rparr>
                         in if consecutive_failures s5 \<ge> 5
                            then Break (s5\<lparr>is_running := False\<rparr>)
                            else Continue s5)))
         else
           (let s2 = (if consecutive_failures s1 > 0
                      then s1\<lparr>consecutive_failures := 0, retry_delay := 5\<rparr> else s1);
                s3 = s2\<lparr>slept := slept s2 @ [Interval interval]\<rparr>
            in case time_sleep interval (ctrl_c c = Some DuringSleep) of
                 Interrupted \<Rightarrow> on_interrupt s3
               | Throws e \<Rightarrow> on_unexpected s3 c
               | Done \<Rightarrow> Continue s3))"

text \<open>
  The loop over the cycles the environment supplies. \<open>Returned\<close>: the loop was left and
  \<open>start_polling\<close> returned after its final \<open>disconnect\<close>; \<open>Raised\<close>: an exception left
  \<open>start_polling\<close>; \<open>Polling\<close>: the loop is still running after the given cycles.
\<close>

datatype outcome = Returned polling | Raised raised | Polling polling

fun polling_loop :: "int \<Rightarrow> polling \<Rightarrow> 'm cycle list \<Rightarrow> outcome" where
  "polling_loop interval s [] = (if is_running s then Polling s else Returned s)"
| "polling_loop interval s (c # cs) =
     (if \<not> is_running s then Returned s
      else case polling_cycle interval s c of
             Break s' \<Rightarrow> Returned s'
           | Propagate x \<Rightarrow> Raised x
           | Continue s' \<Rightarrow>
               polling_loop interval
                 (if stop_requested c then s'\<lparr>is_running := False\<rparr> else s') cs)"

text \<open>\<open>EmailPoller.__init__\<close> followed by the first lines of \<open>start_polling\<close>.\<close>

definition started :: polling where
  "started = \<lparr>is_running = True, max_retry_delay = 60, poll_count = 0,
              consecutive_failures = 0, retry_delay = 5, slept = [], connects = 0\<rparr>"

definition start_polling :: "int \<Rightarrow> 'm cycle list \<Rightarrow> outcome" where
  "start_polling interval cs = polling_loop interval started cs"

section \<open>Strings and JSON values\<close>

text \<open>
  A \<open>char\<close> stands for one code point of a Python \<open>str\<close>. The emoji of the constant
  templates, which no slice and no keyword test reaches, are written as their UTF-8 bytes.
  \<open>lower\<close> maps the capitals among the code points below 256; the keywords tested against
  its result are ASCII.
\<close>

definition lower_char :: "char \<Rightarrow> char" where
  "lower_char c =
     (let n = (of_char c :: nat)
      in if (65 \<le> n \<and> n \<le> 90) \<or> (192 \<le> n \<and> n \<le> 222 \<and> n \<noteq> 215)
         then char_of (n + 32) else c)"

definition lower :: "string \<Rightarrow> string" where
  "lower s = map lower_char s"

text \<open>The characters \<open>str.strip()\<close> removes, among the code points below 256.\<close>

definition whitespace :: "char \<Rightarrow> bool" where
  "whitespace c =
     (let n = (of_char c :: nat)
      in (9 \<le> n \<and> n \<le> 13) \<or> (28 \<le> n \<and> n \<le> 32) \<or> n = 133 \<or> n = 160)"

definition strip :: "string \<Rightarrow> string" where
  "strip s = rev (dropWhile whitespace (rev (dropWhile whitespace s)))"

definition startswith :: "string \<Rightarrow> string \<Rightarrow> bool" where
  "startswith s p = (take (length p) s = p)"

definition endswith :: "string \<Rightarrow> string \<Rightarrow> bool" where
  "endswith s p = (length p \<le> length s \<and> drop (length s - length p) s = p)"

text \<open>\<open>sub in s\<close>.\<close>

fun contains :: "string \<Rightarrow> string \<Rightarrow> bool" where
  "contains sub [] = (sub = [])"
| "contains sub (c # cs) = (startswith (c # cs) sub \<or> contains sub cs)"

text \<open>\<open>s.find(c)\<close> and \<open>s.rfind(c)\<close> for one character; \<open>None\<close> is \<open>-1\<close>.\<close>

fun find_char :: "char \<Rightarrow> string \<Rightarrow> nat option" where
  "find_char c [] = None"
| "find_char c (x # xs) =
     (if x = c then Some 0 else map_option Suc (find_char c xs))"

definition rfind_char :: "char \<Rightarrow> string \<Rightarrow> nat option" where
  "rfind_char c s =
     (case find_char c (rev s) of None \<Rightarrow> None | Some i \<Rightarrow> Some (length s - 1 - i))"

text \<open>\<open>s.split('```')\<close>; the first argument is the part being read.\<close>

fun split_fence :: "string \<Rightarrow> string \<Rightarrow> string list" where
  "split_fence part (c # c1 # c2 # rest) =
     (if c = CHR 0x60 \<and> c1 = CHR 0x60 \<and> c2 = CHR 0x60 then part # split_fence [] rest
      else split_fence (part @ [c]) (c1 # c2 # rest))"
| "split_fence part (c # cs) = split_fence (part @ [c]) cs"
| "split_fence part [] = [part]"

datatype nonfinite = NaN | Infinity | NegInfinity

datatype json =
    JNull | JBool bool | JNum rat | JNonFinite nonfinite | JStr string
  | JArr "json list" | JObj "(string \<times> json) list"



definition truthy :: "json \<Rightarrow> bool" where
  "truthy v =
     (case v of
        JNull \<Rightarrow> False | JBool b \<Rightarrow> b | JNum n \<Rightarrow> n \<noteq> 0 | JNonFinite _ \<Rightarrow> True
      | JStr s \<Rightarrow> s \<noteq> [] | JArr xs \<Rightarrow> xs \<noteq> [] | JObj items \<Rightarrow> items \<noteq> [])"

section \<open>Invariant of the polling loop\<close>

text \<open>
  What holds of the loop's variables whenever the loop test is reached, for a poller
  built by \<open>__init__\<close> (ceiling 60).
\<close>

definition backoff_inv :: "polling \<Rightarrow> bool" where
  "backoff_inv s =
     (max_retry_delay s = 60 \<and> 5 \<le> retry_delay s \<and> retry_delay s \<le> 60 \<and>
      0 \<le> consecutive_failures s \<and>
      (consecutive_failures s = 0 \<longrightarrow> retry_delay s = 5) \<and>
      (is_running s \<longrightarrow> consecutive_failures s < 5))"

section \<open>LocalModelManager\<close>

text \<open>
  The generation backend: its \<open>k\<close>-th call, on the given prompt strings, returns text or
  raises. \<open>json.loads\<close> is a parameter \<open>loads\<close> of the functions that call it.
\<close>

type_synonym llm = "nat \<Rightarrow> string list \<Rightarrow> exn + string"

type_synonym loads = "string \<Rightarrow> exn + json"

text \<open>\<open>LocalModelManager.generate\<close>: any exception of the model gives the empty string.\<close>

definition local_generate :: "llm \<Rightarrow> nat \<Rightarrow> string \<Rightarrow> string" where
  "local_generate backend k prompt =
     (case backend k [prompt] of Inl e \<Rightarrow> [] | Inr text \<Rightarrow> strip text)"

definition fence :: string where
  "fence = [CHR 0x60, CHR 0x60, CHR 0x60]"

text \<open>The \<open>for part in parts\<close> loop of \<open>_clean_json_response\<close>, with its \<open>break\<close>.\<close>

fun scan_parts :: "string list \<Rightarrow> string \<Rightarrow> string" where
  "scan_parts [] text = text"
| "scan_parts (part # parts) text =
     (if startswith (strip part) ''json'' then scan_parts parts (strip (drop 4 part))
      else if startswith (strip part) ''{'' then strip part
      else scan_parts parts text)"

definition clean_json_response :: "string \<Rightarrow> string" where
  "clean_json_response text0 =
     (let text1 = strip text0;
          text2 = (if contains fence text1 then scan_parts (split_fence [] text1) text1
                   else text1)
      in case (find_char (CHR ''{'') text2, rfind_char (CHR ''}'') text2) of
           (Some start, Some end) \<Rightarrow> take (end + 1 - start) (drop start text2)
         | _ \<Rightarrow> text2)"

text \<open>\<open>_get_fallback_structure\<close>. A float literal is the rational it is written as.\<close>

definition get_fallback_structure :: "string \<Rightarrow> string \<Rightarrow> json" where
  "get_fallback_structure system_prompt user_prompt =
     (let combined = lower (system_prompt @ '' '' @ user_prompt)
      in if contains ''intent'' combined \<or> contains ''classify'' combined then
           JObj [(''intent'', JStr ''GENERAL''),
                 (''confidence'', JNum (3 / 10)),
                 (''reasoning'', JStr ''Fallback - model failed to classify'')]
         else if contains ''due_date'' combined \<or> contains ''assignment'' combined then
           JObj [(''class_name'', JNull),
                 (''due_date'', JNull),
                 (''title'', JStr ''Untitled Assignment''),
                 (''description'', JNull),
                 (''priority'', JStr ''medium'')]
         else if contains ''note'' combined then
           JObj [(''class_name'', JNull),
                 (''content'', JStr (if user_prompt \<noteq> [] then take 200 user_prompt
                                     else ''Note content unavailable'')),
                 (''note_type'', JStr ''general''),
                 (''tags'', JArr [])]
         else if contains ''query'' combined then
           JObj [(''query_type'', JStr ''general''),
                 (''search_term'', JStr []),
                 (''filters'', JObj [])]
         else
           JObj [(''error'', JStr ''parsing_failed''),
                 (''raw_prompt'', JStr (take 100 user_prompt))])"

text \<open>The TinyLlama chat format of \<open>generate_json\<close>.\<close>

definition chat_prompt :: "string \<Rightarrow> string \<Rightarrow> string" where
  "chat_prompt system_prompt user_prompt =
     ''<|system|>\<newline>'' @ system_prompt @
     ''\<newline>You must respond with valid JSON only. No explanations.</s>\<newline><|user|>\<newline>'' @
     user_prompt @ ''</s>\<newline><|assistant|>\<newline>''"

text \<open>
  The \<open>try\<close> block of one attempt of \<open>generate_json\<close>: the \<open>k\<close>-th call of the
  backend, cleaned and decoded.
\<close>

definition attempt_once :: "loads \<Rightarrow> llm \<Rightarrow> string \<Rightarrow> string \<Rightarrow> nat \<Rightarrow> exn + json" where
  "attempt_once loads backend system_prompt user_prompt k =
     (let response_text = local_generate backend k (chat_prompt system_prompt user_prompt);
          cleaned_text = clean_json_response response_text
      in loads cleaned_text)"

text \<open>
  The \<open>for attempt in range(retries + 1)\<close> loop of \<open>generate_json\<close>, over the attempts
  still to make; \<open>k\<close> counts the calls of the backend. The result is the returned value
  and the count after the call.
\<close>

fun attempts :: "loads \<Rightarrow> llm \<Rightarrow> string \<Rightarrow> string \<Rightarrow> int \<Rightarrow> nat list \<Rightarrow> nat \<Rightarrow> json \<times> nat" where
  "attempts loads backend system_prompt user_prompt retries [] k = (JObj [], k)"
| "attempts loads backend system_prompt user_prompt retries (attempt # rest) k =
     (case attempt_once loads backend system_prompt user_prompt k of
        Inr parsed \<Rightarrow> (parsed, k + 1)
      | Inl e \<Rightarrow>
          if isinstance e JSONDecodeError then
            (if int attempt < retries
             then attempts loads backend system_prompt user_prompt retries rest (k + 1)
             else (get_fallback_structure system_prompt user_prompt, k + 1))
          else (get_fallback_structure system_prompt user_prompt, k + 1))"

definition local_generate_json :: "loads \<Rightarrow> llm \<Rightarrow> string \<Rightarrow> string \<Rightarrow> int \<Rightarrow> nat \<Rightarrow> json \<times> nat" where
  "local_generate_json loads backend system_prompt user_prompt retries k =
     attempts loads backend system_prompt user_prompt retries [0 ..< nat (retries + 1)] k"

section \<open>AIClient\<close>

datatype provider = Claude | OpenAI | Local

text \<open>\<open>AIClient.generate\<close>: the cloud providers raise what the backend raises.\<close>

definition generate :: "provider \<Rightarrow> llm \<Rightarrow> string \<Rightarrow> string \<Rightarrow> nat \<Rightarrow> (exn + string) \<times> nat" where
  "generate p backend system_prompt user_prompt k =
     (case p of
        Local \<Rightarrow>
          (Inr (local_generate backend k (system_prompt @ ''\<newline>\<newline>'' @ user_prompt)), k + 1)
      | _ \<Rightarrow> (backend k [system_prompt, user_prompt], k + 1))"

definition json_instruction :: string where
  "json_instruction =
     ''\<newline>\<newline>IMPORTANT: Return ONLY valid JSON. No explanation, no markdown formatting.''"

text \<open>\<open>AIClient.generate_json\<close>; the local model is called with its default of 2 retries.\<close>

definition generate_json :: "provider \<Rightarrow> loads \<Rightarrow> llm \<Rightarrow> string \<Rightarrow> string \<Rightarrow> nat \<Rightarrow> (exn + json) \<times> nat" where
  "generate_json p loads backend system_prompt user_prompt k =
     (case p of
        Local \<Rightarrow>
          (case local_generate_json loads backend system_prompt user_prompt 2 k of
             (parsed, k') \<Rightarrow> (Inr parsed, k'))
      | _ \<Rightarrow>
          (case generate p backend (system_prompt @ json_instruction) user_prompt k of
             (Inl e, k') \<Rightarrow> (Inl e, k')
           | (Inr response_text, k') \<Rightarrow>
               (let t1 = strip response_text;
                    t2 = (if startswith t1 (fence @ ''json'') then drop 7 t1 else t1);
                    t3 = (if startswith t2 fence then drop 3 t2 else t2);
                    t4 = (if endswith t3 fence then take (length t3 - 3) t3 else t3)
                in (loads (strip t4), k'))))"

section \<open>Prompts and message templates\<close>

text \<open>\<open>JARVIS_SYSTEM_PROMPT\<close> of \<open>prompts.py\<close>.\<close>

definition JARVIS_SYSTEM_PROMPT :: "string" where
  "JARVIS_SYSTEM_PROMPT =
     ''You are Jarvis, a concise, professional, and witty AI for Fahad.\<newline>'' @
     ''\<newline>Responsibilities:\<newline>- Organize notes/assignments, '' @
     ''track deadlines/reminders, answer queries fast.\<newline>- Ask '' @
     ''for clarification if details are missing; confirm when tasks '' @
     ''are logged.\<newline>\<newline>Style:\<newline>- Address the '' @ ''user as '' @
     [CHR 0x22] @ ''sir'' @ [CHR 0x22] @
     '' once per message.\<newline>- Keep replies brief, prefer bullets, '' @
     ''use emojis sparingly ('' @ [CHR 0xF0, CHR 0x9F, CHR 0x93, CHR 0x9A] @ '' '' @
     [CHR 0xF0, CHR 0x9F, CHR 0x93, CHR 0x9D] @ '' '' @
     [CHR 0xF0, CHR 0x9F, CHR 0x93, CHR 0x85] @ '' '' @ [CHR 0xE2, CHR 0x8F, CHR 0xB0] @
     '').\<newline>- Always sign off with '' @ [CHR 0x22] @ ''- Jarvis'' @ [CHR 0x22] @
     ''.\<newline>''"

text \<open>\<open>INTENT_CLASSIFICATION_PROMPT.format(subject, body)\<close>.\<close>

definition format_intent_prompt :: "string \<Rightarrow> string \<Rightarrow> string" where
  "format_intent_prompt subject body =
     ''Classify the email intent as NOTE, ASSIGNMENT, QUERY, or GENERAL.\<newline>'' @
     ''\<newline>Subject: '' @ subject @ ''\<newline>Body: '' @ body @
     ''\<newline>\<newline>Return JSON:\<newline>{\<newline>  '' @ [CHR 0x22] @
     ''intent'' @ [CHR 0x22] @ '': '' @ [CHR 0x22] @ ''NOTE|ASSIGNMENT|QUERY|GENERAL'' @
     [CHR 0x22] @ '',\<newline>  '' @ [CHR 0x22] @ ''confidence'' @ [CHR 0x22] @
     '': 0.0-1.0,\<newline>  '' @ [CHR 0x22] @ ''reasoning'' @ [CHR 0x22] @ '': '' @
     [CHR 0x22] @ ''brief explanation'' @ [CHR 0x22] @ ''\<newline>}''"

text \<open>\<open>ENTITY_EXTRACTION_ASSIGNMENT_PROMPT.format(subject, body, current_date)\<close>.\<close>

definition format_entity_extraction_assignment :: "string \<Rightarrow> string \<Rightarrow> string \<Rightarrow> string" where
  "format_entity_extraction_assignment subject body current_date =
     ''Extract assignment details.\<newline>\<newline>Subject: '' @ subject @
     ''\<newline>Body: '' @ body @ ''\<newline>Current date: '' @ current_date @
     ''\<newline>\<newline>Return JSON:\<newline>{\<newline>  '' @ [CHR 0x22] @
     ''class_name'' @ [CHR 0x22] @ '': '' @ [CHR 0x22] @ ''string or null'' @
     [CHR 0x22] @ '',\<newline>  '' @ [CHR 0x22] @ ''due_date'' @ [CHR 0x22] @ '': '' @
     [CHR 0x22] @ ''YYYY-MM-DDTHH:MM:SS or null (if date only, set 23:59:00)'' @
     [CHR 0x22] @ '',\<newline>  '' @ [CHR 0x22] @ ''title'' @ [CHR 0x22] @ '': '' @
     [CHR 0x22] @ ''brief title'' @ [CHR 0x22] @ '',\<newline>  '' @ [CHR 0x22] @
     ''description'' @ [CHR 0x22] @ '': '' @ [CHR 0x22] @ ''summary or null'' @
     [CHR 0x22] @ '',\<newline>  '' @ [CHR 0x22] @ ''priority'' @ [CHR 0x22] @ '': '' @
     [CHR 0x22] @ ''high|medium|low'' @ [CHR 0x22] @ ''\<newline>}''"




text \<open>\<open>ASSIGNMENT_CONFIRMATION_TEMPLATE.format(...)\<close>, on the strings of its fields.\<close>

definition assignment_confirmation :: "string \<Rightarrow> string \<Rightarrow> string \<Rightarrow> string \<Rightarrow> string \<Rightarrow> string" where
  "assignment_confirmation class_name title due_date_formatted reminder_date_formatted additional_note =
     ''Assignment logged, sir.\<newline>\<newline>'' @
     [CHR 0xF0, CHR 0x9F, CHR 0x93, CHR 0x9A] @ '' '' @ class_name @ '' - '' @ title @
     ''\<newline>'' @ [CHR 0xF0, CHR 0x9F, CHR 0x93, CHR 0x85] @ '' Due: '' @
     due_date_formatted @ ''\<newline>'' @ [CHR 0xE2, CHR 0x8F, CHR 0xB0] @
     '' Reminder set for '' @ reminder_date_formatted @ ''\<newline>\<newline>'' @
     additional_note @ ''\<newline>\<newline>- Jarvis\<newline>''"


text \<open>\<open>ERROR_RESPONSE_TEMPLATE.format(error_message, suggestion)\<close>.\<close>

definition error_response :: "string \<Rightarrow> string \<Rightarrow> string" where
  "error_response error_message suggestion =
     ''I encountered an issue processing your request, sir.\<newline>'' @
     ''\<newline>'' @ [CHR 0xE2, CHR 0x9D, CHR 0x8C] @ '' '' @ error_message @
     ''\<newline>\<newline>'' @ suggestion @
     ''\<newline>\<newline>- Jarvis\<newline>''"


section \<open>AIProcessor: collaborators and state\<close>

text \<open>
  A parsed email, as \<open>EmailParser.parse\<close> builds it: the fields are the keys
  \<open>email_id\<close>, \<open>from\<close>, \<open>subject\<close>, \<open>body\<close>, \<open>date\<close> and \<open>attachments\<close> (each attachment with
  its \<open>filename\<close> and \<open>filepath\<close>).
\<close>

record parsed_email =
  msg_id :: string
  msg_from :: string
  msg_subject :: string
  msg_body :: string
  msg_date :: string
  msg_attachments :: "(string \<times> string) list"

text \<open>
  The calls that reach the persistence collaborators, with their arguments. The state of
  the pipeline is the number of backend calls made and the log of these calls.
\<close>

datatype 'd db_call =
    Classes_get_or_create json
  | Assignments_create json json 'd json int
  | Notes_create json json string json
  | Notes_set_formatted_path json string
  | Attachments_process_and_store string string string json
  | Assignments_get_upcoming int
  | Notes_search string int
  | Classes_get_all

record 'd pipeline =
  calls :: nat
  db_log :: "'d db_call list"

text \<open>
  Everything outside the pipeline: the provider and its backend, \<open>json.loads\<close>, the clock
  and the \<open>datetime\<close> operations on a type \<open>'d\<close> of datetimes (\<open>minus_hours\<close> is the
  subtraction of a \<open>timedelta\<close>, \<open>None\<close> when it raises \<open>OverflowError\<close>), Python's \<open>str()\<close> on values
  that are not strings and on exceptions, \<open>os.path.basename\<close>, and what each collaborator call returns or
  raises. The backend returns text, as \<open>generate\<close> is annotated, or raises. Printing is
  taken not to raise.
\<close>

record 'd world =
  ai_provider :: provider
  json_loads :: loads
  model :: llm
  now_isoformat :: string
  fromisoformat :: "string \<Rightarrow> 'd option"
  strftime :: "'d \<Rightarrow> string \<Rightarrow> string"
  minus_hours :: "'d \<Rightarrow> int \<Rightarrow> 'd option"
  str_of :: "json \<Rightarrow> string"
  str_exn :: "exn \<Rightarrow> string"
  basename :: "string \<Rightarrow> string"
  get_connection :: "exn option"
  classes_get_or_create :: "json \<Rightarrow> exn + json"
  assignments_create :: "json \<Rightarrow> json \<Rightarrow> 'd \<Rightarrow> json \<Rightarrow> exn + json"
  notes_create :: "json \<Rightarrow> json \<Rightarrow> json \<Rightarrow> exn + json"
  process_and_store :: "string \<Rightarrow> string \<Rightarrow> string \<Rightarrow> json \<Rightarrow> exn + json"
  format_note :: "json \<Rightarrow> string \<Rightarrow> json \<Rightarrow> string \<Rightarrow> json \<Rightarrow> string \<Rightarrow> json \<Rightarrow> json list
                  \<Rightarrow> exn + string"
  assignments_get_upcoming :: "int \<Rightarrow> exn + json list"
  notes_search :: "string \<Rightarrow> exn + json list"
  classes_get_all :: "exn + json list"

text \<open>\<open>str.format\<close> and f-strings on a value: a string as it is, anything else by \<open>str()\<close>.\<close>

definition text_of :: "'d world \<Rightarrow> json \<Rightarrow> string" where
  "text_of w v = (case v of JStr s \<Rightarrow> s | _ \<Rightarrow> str_of w v)"

text \<open>\<open>d.get(k)\<close> and \<open>d.get(k, default)\<close> on the items of a dict.\<close>

definition dict_get :: "(string \<times> json) list \<Rightarrow> string \<Rightarrow> json \<Rightarrow> json" where
  "dict_get items k dflt = (case map_of items k of None \<Rightarrow> dflt | Some v \<Rightarrow> v)"

text \<open>\<open>self.ai_client.generate_json(JARVIS_SYSTEM_PROMPT, prompt)\<close> on the state.\<close>

definition ask_json :: "'d world \<Rightarrow> string \<Rightarrow> 'd pipeline \<Rightarrow> (exn + json) \<times> 'd pipeline" where
  "ask_json w prompt st =
     (case generate_json (ai_provider w) (json_loads w) (model w) JARVIS_SYSTEM_PROMPT prompt
             (calls st) of
        (r, k) \<Rightarrow> (r, st\<lparr>calls := k\<rparr>))"

section \<open>AIProcessor: classification and extraction\<close>

definition classify_intent :: "'d world \<Rightarrow> string \<Rightarrow> string \<Rightarrow> 'd pipeline \<Rightarrow> json \<times> 'd pipeline" where
  "classify_intent w subject body st =
     (case ask_json w (format_intent_prompt subject body) st of
        (Inr result, st') \<Rightarrow> (result, st')
      | (Inl e, st') \<Rightarrow>
          (JObj [(''intent'', JStr ''GENERAL''),
                 (''confidence'', JNum (5 / 10)),
                 (''reasoning'', JStr ''Failed to classify, defaulting to GENERAL'')], st'))"

definition extract_assignment_entities ::
    "'d world \<Rightarrow> string \<Rightarrow> string \<Rightarrow> 'd pipeline \<Rightarrow> json \<times> 'd pipeline" where
  "extract_assignment_entities w subject body st =
     (case ask_json w (format_entity_extraction_assignment subject body (now_isoformat w)) st of
        (Inr result, st') \<Rightarrow> (result, st')
      | (Inl e, st') \<Rightarrow>
          (JObj [(''class_name'', JNull),
                 (''due_date'', JNull),
                 (''title'', JStr (if subject \<noteq> [] then subject else ''Untitled Assignment'')),
                 (''description'', JStr (take 200 body)),
                 (''priority'', JStr ''medium'')], st'))"


section \<open>AIProcessor: assignments\<close>

text \<open>
  \<open>datetime.fromisoformat(entities['due_date'])\<close> under its bare \<open>except\<close>: a value that is
  not a string raises \<open>TypeError\<close> there, which is caught like a failed parse.
\<close>

definition parse_due_date :: "'d world \<Rightarrow> json \<Rightarrow> 'd option" where
  "parse_due_date w v = (case v of JStr s \<Rightarrow> fromisoformat w s | _ \<Rightarrow> None)"

definition no_due_date :: json where
  "no_due_date =
     JObj [(''success'', JBool False),
           (''error'', JStr ''no_due_date''),
           (''message'', JStr (error_response
              (''I couldn'' @ [CHR 0x27] @ ''t find a due date in your email.'')
              (''Please include the deadline (e.g., '' @ [CHR 0x27] @
               ''due October 20th at 11:59 PM'' @ [CHR 0x27] @ '').'')))]"

definition invalid_due_date :: json where
  "invalid_due_date =
     JObj [(''success'', JBool False),
           (''error'', JStr ''invalid_due_date''),
           (''message'', JStr (error_response
              (''I couldn'' @ [CHR 0x27] @ ''t parse the due date.'')
              (''Please use a clear format like '' @ [CHR 0x27] @
               ''October 20, 2024 at 11:59 PM'' @ [CHR 0x27] @ ''.'')))]"

text \<open>
  The part of \<open>process_assignment\<close> after the due date is parsed: the class, the
  assignment record and the confirmation. \<open>items\<close> are the items of \<open>entities\<close>.
\<close>

definition save_assignment ::
    "'d world \<Rightarrow> (string \<times> json) list \<Rightarrow> 'd \<Rightarrow> 'd pipeline \<Rightarrow> (exn + json) \<times> 'd pipeline" where
  "save_assignment w items due_date st =
     (case get_connection w of
        Some e \<Rightarrow> (Inl e, st)
      | None \<Rightarrow>
         (let c = dict_get items ''class_name'' JNull;
              class_name = (if truthy c then c else JStr ''General'');
              st1 = st\<lparr>db_log := db_log st @ [Classes_get_or_create class_name]\<rparr>
          in case classes_get_or_create w class_name of
               Inl e \<Rightarrow> (Inl e, st1)
             | Inr class_id \<Rightarrow>
                (case map_of items ''title'' of
                   None \<Rightarrow> (Inl KeyError, st1)
                 | Some title \<Rightarrow>
                    (let description = dict_get items ''description'' JNull;
                         st2 = st1\<lparr>db_log := db_log st1 @
                                 [Assignments_create class_id title due_date description 24]\<rparr>
                     in case assignments_create w class_id title due_date description of
                          Inl e \<Rightarrow> (Inl e, st2)
                        | Inr assignment_id \<Rightarrow>
                           (case minus_hours w due_date 24 of
                              None \<Rightarrow> (Inl OverflowError, st2)
                            | Some reminder_date \<Rightarrow>
                               (let due_formatted = strftime w due_date ''%B %d, %Y at %I:%M %p'';
                                    reminder_formatted =
                                      strftime w reminder_date ''%B %d at %I:%M %p'';
                                    additional_note =
                                      (if dict_get items ''priority'' JNull = JStr ''high''
                                       then [CHR 0xE2, CHR 0x9A, CHR 0xA0, CHR 0xEF, CHR 0xB8,
                                             CHR 0x8F] @
                                            ''  This appears to be high priority. I recommend starting soon.''
                                       else []);
                                    message = assignment_confirmation (text_of w class_name)
                                                (text_of w title) due_formatted reminder_formatted
                                                additional_note
                                in (Inr (JObj [(''success'', JBool True),
                                               (''assignment_id'', assignment_id),
                                               (''message'', JStr message)]), st2)))))))"

text \<open>
  \<open>process_assignment\<close>. \<open>entities.get\<close> raises \<open>AttributeError\<close> when the decoded value
  is not a dict.
\<close>

definition process_assignment ::
    "'d world \<Rightarrow> parsed_email \<Rightarrow> 'd pipeline \<Rightarrow> (exn + json) \<times> 'd pipeline" where
  "process_assignment w parsed st =
     (case extract_assignment_entities w (msg_subject parsed) (msg_body parsed) st of
        (JObj items, st1) \<Rightarrow>
          if \<not> truthy (dict_get items ''due_date'' JNull) then (Inr no_due_date, st1)
          else (case parse_due_date w (dict_get items ''due_date'' JNull) of
                  None \<Rightarrow> (Inr invalid_due_date, st1)
                | Some due_date \<Rightarrow> save_assignment w items due_date st1)
      | (_, st1) \<Rightarrow> (Inl AttributeError, st1))"

section \<open>AIProcessor: notes\<close>







section \<open>AIProcessor: queries\<close>









section \<open>AIProcessor: the entry point\<close>




section \<open>ProcessingQueue\<close>

text \<open>
  A queue item is the payload with its callback; calling the callback returns (\<open>None\<close>)
  or raises. The state is the queue, the \<open>running\<close> flag, whether the worker thread is
  alive, and the two counters.
\<close>

type_synonym 'p queue_item = "'p \<times> ('p \<Rightarrow> exn option)"

record 'p processing_queue =
  queue :: "'p queue_item list"
  running :: bool
  worker_alive :: bool
  total_processed :: int
  total_errors :: int

text \<open>\<open>__init__\<close> followed by \<open>start\<close>.\<close>

definition started_queue :: "'p processing_queue" where
  "started_queue = \<lparr>queue = [], running = True, worker_alive = True,
                     total_processed = 0, total_errors = 0\<rparr>"

text \<open>\<open>submit\<close>: \<open>RuntimeError\<close> when the queue is not running.\<close>

definition submit :: "'p \<Rightarrow> ('p \<Rightarrow> exn option) \<Rightarrow> 'p processing_queue \<Rightarrow> exn + 'p processing_queue" where
  "submit email_data callback s =
     (if \<not> running s then Inl RuntimeError
      else Inr (s\<lparr>queue := queue s @ [(email_data, callback)]\<rparr>))"

text \<open>
  \<open>stop\<close>: the flag is cleared and the caller joins the worker; the worker leaves its loop
  at its next test of the flag.
\<close>

definition stop :: "'p processing_queue \<Rightarrow> 'p processing_queue" where
  "stop s = (if \<not> running s then s else s\<lparr>running := False\<rparr>)"

text \<open>
  One pass of the worker through \<open>while self.running\<close>: the test of the flag, the
  \<open>queue.get\<close> (an empty queue times out and the loop continues), the callback and the
  counters.
\<close>

definition worker :: "'p processing_queue \<Rightarrow> 'p processing_queue" where
  "worker s =
     (if \<not> worker_alive s then s
      else if \<not> running s then s\<lparr>worker_alive := False\<rparr>
      else case queue s of
             [] \<Rightarrow> s
           | (email_data, callback) # rest \<Rightarrow>
               (case callback email_data of
                  None \<Rightarrow> s\<lparr>queue := rest, total_processed := total_processed s + 1\<rparr>
                | Some e \<Rightarrow> s\<lparr>queue := rest, total_errors := total_errors s + 1\<rparr>))"

text \<open>\<open>get_status\<close> without the uptime: queue size, the counters and the flag.\<close>

definition get_status :: "'p processing_queue \<Rightarrow> nat \<times> int \<times> int \<times> bool" where
  "get_status s = (length (queue s), total_processed s, total_errors s, running s)"

text \<open>
  A schedule of the producer's calls and the worker's passes, in the order in which they
  take effect. A \<open>submit\<close> that raises leaves the state as it is.
\<close>

datatype 'p event = Submit 'p "'p \<Rightarrow> exn option" | Stop | Worker

fun run_event :: "'p processing_queue \<Rightarrow> 'p event \<Rightarrow> 'p processing_queue" where
  "run_event s (Submit email_data callback) =
     (case submit email_data callback s of Inl e \<Rightarrow> s | Inr s' \<Rightarrow> s')"
| "run_event s Stop = stop s"
| "run_event s Worker = worker s"

definition run_events :: "'p processing_queue \<Rightarrow> 'p event list \<Rightarrow> 'p processing_queue" where
  "run_events s evs = foldl run_event s evs"

fun is_submit :: "'p event \<Rightarrow> bool" where
  "is_submit (Submit _ _) = True"
| "is_submit _ = False"

section \<open>Properties of the poller\<close>

lemma connection_error_iff:
  "connection_error e \<longleftrightarrow> e \<in> {SSLError, IMAP4_abort, IMAP4_readonly, ConnectionError, TimeoutError, OSError}"
  by (cases e) (simp_all add: connection_error_def isinstance_def)

lemma cycle_poll_ok:
  assumes "fst (poll (inbox c) (hooks c))" "ctrl_c c = None" "0 \<le> interval"
  shows "polling_cycle interval s c =
     Continue ((if consecutive_failures s > 0
                then s\<lparr>poll_count := poll_count s + 1, consecutive_failures := 0, retry_delay := 5\<rparr>
                else s\<lparr>poll_count := poll_count s + 1\<rparr>)\<lparr>slept := slept s @ [Interval interval]\<rparr>)"
  using assms by (simp add: polling_cycle_def time_sleep_def Let_def)

lemma cycle_poll_failed:
  assumes "\<not> fst (poll (inbox c) (hooks c))" "ctrl_c c = None" "0 \<le> retry_delay s"
  shows "polling_cycle interval s c =
     (if connect_ok c
      then Continue (s\<lparr>poll_count := poll_count s + 1, consecutive_failures := 0, retry_delay := 5,
                       slept := slept s @ [Backoff (retry_delay s)], connects := connects s + 1\<rparr>)
      else if consecutive_failures s + 1 \<ge> 5
      then Break (s\<lparr>is_running := False, poll_count := poll_count s + 1,
                     consecutive_failures := consecutive_failures s + 1,
                     retry_delay := min (retry_delay s * 2) (max_retry_delay s),
                     slept := slept s @ [Backoff (retry_delay s)], connects := connects s + 1\<rparr>)
      else Continue (s\<lparr>poll_count := poll_count s + 1,
                     consecutive_failures := consecutive_failures s + 1,
                     retry_delay := min (retry_delay s * 2) (max_retry_delay s),
                     slept := slept s @ [Backoff (retry_delay s)], connects := connects s + 1\<rparr>))"
  using assms by (simp add: polling_cycle_def time_sleep_def Let_def)

lemma deliver_handler_irrelevant:
  "deliver (cb\<lparr>handler := h\<rparr>) emails called = deliver cb emails called"
  by (induction emails arbitrary: called)
     (auto simp: already_processed_def split: sum.splits bool.splits option.splits)

lemma poll_handler_irrelevant: "poll mb (cb\<lparr>handler := h\<rparr>) = poll mb cb"
  by (simp add: poll_def deliver_handler_irrelevant split: option.splits)

lemma deliver_all:
  assumes "\<forall>(i, m) \<in> set emails. (\<exists>b. already_processed cb i = Inr b) \<and> (\<exists>t. subject_of cb m = Inr t)"
  shows "deliver cb emails called =
         Inr (called @ map fst (filter (\<lambda>(i, m). already_processed cb i = Inr False) emails))"
  using assms
  by (induction emails arbitrary: called)
     (auto split: sum.splits bool.splits option.splits)

lemma already_processed_handler [simp]:
  "already_processed (cb\<lparr>handler := h\<rparr>) i = already_processed cb i"
  by (simp add: already_processed_def)

text \<open>
  C6. Within one poll batch an exception raised by the handler is caught: whatever the
  handler does on each message (\<open>h\<close> is arbitrary), as long as the fetch gave a list and
  the duplicate check and the decoding of the subject do not fail, the handler is called
  with every message that is not already processed, \<open>poll\<close> returns \<open>True\<close>, and the
  loop takes its success branch: it sleeps for the interval, with no backoff sleep and
  no call of \<open>connect\<close>.
\<close>

theorem handler_errors_are_not_transport_failures:
  assumes fetched: "get_unread_emails mb = Some emails"
    and others: "\<forall>(i, m) \<in> set emails.
                   (\<exists>b. already_processed cb i = Inr b) \<and> (\<exists>t. subject_of cb m = Inr t)"
  shows "poll mb (cb\<lparr>handler := h\<rparr>) =
           (True, map fst (filter (\<lambda>(i, m). already_processed cb i = Inr False) emails))
       \<and> (\<forall>c s interval. inbox c = mb \<longrightarrow> hooks c = cb\<lparr>handler := h\<rparr> \<longrightarrow>
              ctrl_c c = None \<longrightarrow> 0 \<le> interval \<longrightarrow>
              (\<exists>s'. polling_cycle interval s c = Continue s' \<and>
                    slept s' = slept s @ [Interval interval] \<and> connects s' = connects s))"
proof -
  have d: "deliver cb emails [] =
           Inr (map fst (filter (\<lambda>(i, m). already_processed cb i = Inr False) emails))"
    using deliver_all [OF others, of "[]"] by simp
  have p: "poll mb (cb\<lparr>handler := h\<rparr>) =
           (True, map fst (filter (\<lambda>(i, m). already_processed cb i = Inr False) emails))"
    unfolding poll_handler_irrelevant using fetched d by (simp add: poll_def)
  have "\<exists>s'. polling_cycle interval s c = Continue s' \<and>
             slept s' = slept s @ [Interval interval] \<and> connects s' = connects s"
    if "inbox c = mb" "hooks c = cb\<lparr>handler := h\<rparr>" "ctrl_c c = None" "0 \<le> interval"
    for c :: "'a cycle" and s interval
  proof -
    have "fst (poll (inbox c) (hooks c))" using that p by simp
    from cycle_poll_ok [OF this that(3,4), of s] show ?thesis by simp
  qed
  with p show ?thesis by blast
qed

theorem handler_errors_are_not_transport_failures_witness:
  "get_unread_emails
     \<lparr>select_inbox = None, search_unseen = Inr (''OK'', [''1'', ''2'', ''3'']),
      fetch_rfc822 = (\<lambda>i. Inr (''OK'', i))\<rparr>
     = Some [(''1'', ''1''), (''2'', ''2''), (''3'', ''3'')]
   \<and> poll
     \<lparr>select_inbox = None, search_unseen = Inr (''OK'', [''1'', ''2'', ''3'']),
      fetch_rfc822 = (\<lambda>i. Inr (''OK'', i))\<rparr>
     \<lparr>handler = (\<lambda>i m. if i = ''1'' then Some RuntimeError else None),
      is_processed = Some (\<lambda>i. Inr (i = ''2'')), subject_of = (\<lambda>m. Inr m)\<rparr>
     = (True, [''1'', ''3''])"
proof -
  let ?mb = "\<lparr>select_inbox = None, search_unseen = Inr (''OK'', [''1'', ''2'', ''3'']),
      fetch_rfc822 = (\<lambda>i. Inr (''OK'', i))\<rparr> :: string mailbox"
  let ?cb = "\<lparr>handler = (\<lambda>i m. None),
      is_processed = Some (\<lambda>i. Inr (i = ''2'')), subject_of = (\<lambda>m. Inr m)\<rparr> :: string callbacks"
  have f: "get_unread_emails ?mb = Some [(''1'', ''1''), (''2'', ''2''), (''3'', ''3'')]"
    by (simp add: get_unread_emails_def fetch_unseen_def)
  have o: "\<forall>(i, m) \<in> set [(''1'', ''1''), (''2'', ''2''), (''3'', ''3'')].
            (\<exists>b. already_processed ?cb i = Inr b) \<and> (\<exists>t. subject_of ?cb m = Inr t)"
    by (simp add: already_processed_def)
  from handler_errors_are_not_transport_failures
         [OF f o, of "\<lambda>i m. if i = ''1'' then Some RuntimeError else None"] f
  show ?thesis by (simp add: already_processed_def)
qed

text \<open>
  C10. An exception that leaves the \<open>try\<close> block of \<open>get_unread_emails\<close> is treated as
  a transport error exactly when it is an \<open>ssl.SSLError\<close>, an \<open>imaplib.IMAP4.abort\<close>, a
  \<open>ConnectionError\<close> or an \<open>OSError\<close> (the classes themselves or, as \<open>except\<close> matches,
  their subclasses): then \<open>get_unread_emails\<close> returns \<open>None\<close>, \<open>poll\<close> returns \<open>False\<close>
  and the loop sleeps for the retry delay and reconnects. Every other exception, and a
  search status other than \<open>OK\<close>, gives the empty list, on which \<open>poll\<close> returns \<open>True\<close> as
  it does when there is no new mail, and the loop sleeps for the interval without
  calling \<open>connect\<close>.
\<close>

theorem only_connection_errors_force_reconnect:
  "(fetch_unseen mb = Inl e \<longrightarrow>
      (connection_error e \<longleftrightarrow>
         e \<in> {SSLError, IMAP4_abort, IMAP4_readonly, ConnectionError, TimeoutError, OSError}) \<and>
      get_unread_emails mb = (if connection_error e then None else Some []) \<and>
      poll mb cb = (\<not> connection_error e, []))
   \<and> (select_inbox mb = None \<longrightarrow> search_unseen mb = Inr (status, ids) \<longrightarrow> status \<noteq> ''OK'' \<longrightarrow>
        get_unread_emails mb = Some [] \<and> poll mb cb = (True, []))
   \<and> (select_inbox mb = None \<longrightarrow> search_unseen mb = Inr (''OK'', []) \<longrightarrow>
        get_unread_emails mb = Some [] \<and> poll mb cb = (True, []))
   \<and> (\<forall>c s interval. inbox c = mb \<longrightarrow> hooks c = cb \<longrightarrow> ctrl_c c = None \<longrightarrow>
        (get_unread_emails mb = Some [] \<longrightarrow> 0 \<le> interval \<longrightarrow>
           (\<exists>s'. polling_cycle interval s c = Continue s' \<and>
                 slept s' = slept s @ [Interval interval] \<and> connects s' = connects s)) \<and>
        (get_unread_emails mb = None \<longrightarrow> 0 \<le> retry_delay s \<longrightarrow>
           (\<exists>s'. (polling_cycle interval s c = Continue s' \<or> polling_cycle interval s c = Break s') \<and>
                 slept s' = slept s @ [Backoff (retry_delay s)] \<and>
                 connects s' = connects s + 1)))"
proof (intro conjI impI allI)
  assume "fetch_unseen mb = Inl e"
  then show "get_unread_emails mb = (if connection_error e then None else Some [])"
    by (simp add: get_unread_emails_def)
  then show "poll mb cb = (\<not> connection_error e, [])"
    by (simp add: poll_def)
next
  show "connection_error e \<longleftrightarrow>
         e \<in> {SSLError, IMAP4_abort, IMAP4_readonly, ConnectionError, TimeoutError, OSError}"
    by (rule connection_error_iff)
next
  assume "select_inbox mb = None" "search_unseen mb = Inr (status, ids)" "status \<noteq> ''OK''"
  then show g: "get_unread_emails mb = Some []"
    by (simp add: get_unread_emails_def fetch_unseen_def)
  then show "poll mb cb = (True, [])" by (simp add: poll_def)
next
  assume "select_inbox mb = None" "search_unseen mb = Inr (''OK'', [])"
  then show g: "get_unread_emails mb = Some []"
    by (simp add: get_unread_emails_def fetch_unseen_def)
  then show "poll mb cb = (True, [])" by (simp add: poll_def)
next
  fix c :: "'a cycle" and s :: polling and interval :: int
  assume c: "inbox c = mb" "hooks c = cb" "ctrl_c c = None"
  { assume "get_unread_emails mb = Some []" and i: "0 \<le> interval"
    then have "fst (poll (inbox c) (hooks c))" using c by (simp add: poll_def)
    from cycle_poll_ok [OF this c(3) i, of s]
    show "\<exists>s'. polling_cycle interval s c = Continue s' \<and>
                 slept s' = slept s @ [Interval interval] \<and> connects s' = connects s"
      by simp }
  { assume "get_unread_emails mb = None" and d: "0 \<le> retry_delay s"
    then have "\<not> fst (poll (inbox c) (hooks c))" using c by (simp add: poll_def)
    from cycle_poll_failed [OF this c(3) d, of interval]
    show "\<exists>s'. (polling_cycle interval s c = Continue s' \<or> polling_cycle interval s c = Break s') \<and>
                 slept s' = slept s @ [Backoff (retry_delay s)] \<and>
                 connects s' = connects s + 1"
      by (cases "connect_ok c") auto }
qed


theorem only_connection_errors_force_reconnect_witness:
  "fetch_unseen \<lparr>select_inbox = None, search_unseen = Inr (''OK'', [''7'']),
                 fetch_rfc822 = (\<lambda>_. Inl IMAP4_error :: exn + string \<times> unit)\<rparr> = Inl IMAP4_error
   \<and> get_unread_emails \<lparr>select_inbox = None, search_unseen = Inr (''OK'', [''7'']),
                 fetch_rfc822 = (\<lambda>_. Inl IMAP4_error :: exn + string \<times> unit)\<rparr> = Some []
   \<and> fetch_unseen \<lparr>select_inbox = Some TimeoutError, search_unseen = Inr (''OK'', [''7'']),
                 fetch_rfc822 = (\<lambda>_. Inl IMAP4_error :: exn + string \<times> unit)\<rparr> = Inl TimeoutError
   \<and> get_unread_emails \<lparr>select_inbox = Some TimeoutError, search_unseen = Inr (''OK'', [''7'']),
                 fetch_rfc822 = (\<lambda>_. Inl IMAP4_error :: exn + string \<times> unit)\<rparr> = None"
proof -
  let ?a = "\<lparr>select_inbox = None, search_unseen = Inr (''OK'', [''7'']),
                 fetch_rfc822 = (\<lambda>_. Inl IMAP4_error :: exn + string \<times> unit)\<rparr>"
  let ?b = "\<lparr>select_inbox = Some TimeoutError, search_unseen = Inr (''OK'', [''7'']),
                 fetch_rfc822 = (\<lambda>_. Inl IMAP4_error :: exn + string \<times> unit)\<rparr>"
  have a: "fetch_unseen ?a = Inl IMAP4_error" by (simp add: fetch_unseen_def)
  have b: "fetch_unseen ?b = Inl TimeoutError" by (simp add: fetch_unseen_def)
  from only_connection_errors_force_reconnect [of ?a IMAP4_error]
       only_connection_errors_force_reconnect [of ?b TimeoutError] a b
  show ?thesis by simp
qed


lemma backoff_inv_started: "backoff_inv started"
  by (simp add: backoff_inv_def started_def)

lemma backoff_inv_cycle:
  assumes "backoff_inv s"
    and "polling_cycle interval s c = Continue s' \<or> polling_cycle interval s c = Break s'"
  shows "backoff_inv s'"
  using assms
  by (auto simp: backoff_inv_def polling_cycle_def on_unexpected_def on_interrupt_def
                 time_sleep_def Let_def
           split: if_splits effect.splits)

lemma backoff_inv_stop: "backoff_inv s \<Longrightarrow> backoff_inv (s\<lparr>is_running := False\<rparr>)"
  by (simp add: backoff_inv_def)

lemma backoff_inv_loop:
  assumes "backoff_inv s"
    and "polling_loop interval s cs = Polling s' \<or> polling_loop interval s cs = Returned s'"
  shows "backoff_inv s'"
  using assms
proof (induction cs arbitrary: s)
  case Nil
  then show ?case by (auto split: if_splits)
next
  case (Cons c cs)
  show ?case
  proof (cases "is_running s")
    case False
    with Cons.prems show ?thesis by auto
  next
    case True
    show ?thesis
    proof (cases "polling_cycle interval s c")
      case (Continue s1)
      then have "backoff_inv s1" using backoff_inv_cycle Cons.prems(1) by blast
      then have "backoff_inv (if stop_requested c then s1\<lparr>is_running := False\<rparr> else s1)"
        by (simp add: backoff_inv_stop)
      from Cons.IH [OF this] Cons.prems(2) True Continue show ?thesis by simp
    next
      case (Break s1)
      then have "backoff_inv s1" using backoff_inv_cycle Cons.prems(1) by blast
      with Cons.prems(2) True Break show ?thesis by auto
    next
      case (Propagate x)
      with Cons.prems(2) True show ?thesis by simp
    qed
  qed
qed

lemma polling_loop_append:
  "polling_loop interval s (pre @ cs) =
     (case polling_loop interval s pre of Polling s' \<Rightarrow> polling_loop interval s' cs | r \<Rightarrow> r)"
proof (induction pre arbitrary: s)
  case Nil
  show ?case by (cases cs) auto
next
  case (Cons c pre)
  show ?case by (simp add: Cons.IH split: step.splits)
qed

lemma polling_is_running:
  "polling_loop interval s cs = Polling s' \<Longrightarrow> is_running s'"
  by (induction cs arbitrary: s) (auto split: if_splits step.splits)


lemma failed_reconnects_keep_polling:
  assumes "backoff_inv s" "is_running s"
    and "\<forall>c \<in> set cs. \<not> fst (poll (inbox c) (hooks c)) \<and> \<not> connect_ok c \<and>
                      ctrl_c c = None \<and> \<not> stop_requested c"
    and "consecutive_failures s + int (length cs) < 5"
  shows "\<exists>s'. polling_loop interval s cs = Polling s' \<and>
              consecutive_failures s' = consecutive_failures s + int (length cs) \<and>
              connects s' = connects s + length cs"
  using assms
proof (induction cs arbitrary: s)
  case Nil
  then show ?case by simp
next
  case (Cons c cs)
  let ?s1 = "s\<lparr>poll_count := poll_count s + 1,
                consecutive_failures := consecutive_failures s + 1,
                retry_delay := min (retry_delay s * 2) (max_retry_delay s),
                slept := slept s @ [Backoff (retry_delay s)], connects := connects s + 1\<rparr>"
  have c: "\<not> fst (poll (inbox c) (hooks c))" "\<not> connect_ok c" "ctrl_c c = None" "\<not> stop_requested c"
    using Cons.prems(3) by simp_all
  have d: "0 \<le> retry_delay s" using Cons.prems(1) by (simp add: backoff_inv_def)
  have step: "polling_cycle interval s c = Continue ?s1"
    using cycle_poll_failed [OF c(1) c(3) d, of interval] c(2) Cons.prems(4) by simp
  then have inv: "backoff_inv ?s1" using backoff_inv_cycle Cons.prems(1) by blast
  have "\<exists>s'. polling_loop interval ?s1 cs = Polling s' \<and>
              consecutive_failures s' = consecutive_failures ?s1 + int (length cs) \<and>
              connects s' = connects ?s1 + length cs"
    using Cons.prems by (intro Cons.IH [OF inv]) simp_all
  then show ?case using step c(4) Cons.prems(2) by auto
qed

lemma failed_reconnects_stop:
  assumes "backoff_inv s" "is_running s"
    and "\<forall>c \<in> set cs. \<not> fst (poll (inbox c) (hooks c)) \<and> \<not> connect_ok c \<and>
                      ctrl_c c = None \<and> \<not> stop_requested c"
    and "5 \<le> consecutive_failures s + int (length cs)"
  shows "\<exists>s'. polling_loop interval s cs = Returned s' \<and> \<not> is_running s' \<and>
              consecutive_failures s' = 5"
  using assms
proof (induction cs arbitrary: s)
  case Nil
  then show ?case by (simp add: backoff_inv_def)
next
  case (Cons c cs)
  let ?s1 = "s\<lparr>poll_count := poll_count s + 1,
                consecutive_failures := consecutive_failures s + 1,
                retry_delay := min (retry_delay s * 2) (max_retry_delay s),
                slept := slept s @ [Backoff (retry_delay s)], connects := connects s + 1\<rparr>"
  have c: "\<not> fst (poll (inbox c) (hooks c))" "\<not> connect_ok c" "ctrl_c c = None" "\<not> stop_requested c"
    using Cons.prems(3) by simp_all
  have d: "0 \<le> retry_delay s" using Cons.prems(1) by (simp add: backoff_inv_def)
  have lt: "consecutive_failures s < 5" using Cons.prems(1,2) by (simp add: backoff_inv_def)
  note cyc = cycle_poll_failed [OF c(1) c(3) d, of interval]
  show ?case
  proof (cases "consecutive_failures s + 1 \<ge> 5")
    case True
    then have "polling_cycle interval s c = Break (?s1\<lparr>is_running := False\<rparr>)"
      using cyc c(2) by simp
    then show ?thesis using Cons.prems(2) True lt by simp
  next
    case False
    then have step: "polling_cycle interval s c = Continue ?s1"
      using cyc c(2) by simp
    then have inv: "backoff_inv ?s1" using backoff_inv_cycle Cons.prems(1) by blast
    have "\<exists>s'. polling_loop interval ?s1 cs = Returned s' \<and> \<not> is_running s' \<and>
              consecutive_failures s' = 5"
      using Cons.prems by (intro Cons.IH [OF inv]) simp_all
    then show ?thesis using step c(4) Cons.prems(2) by auto
  qed
qed

text \<open>
  C4. Whenever the loop is running, five consecutive cycles in which the poll fails and
  the reconnect fails make \<open>start_polling\<close> return, without an exception, with
  \<open>is_running\<close> false; counted from a failure counter of 0 the loop is still polling
  after the fourth and stops at the fifth.
\<close>

theorem five_failed_reconnects_stop_the_poller:
  assumes pre: "start_polling interval pre = Polling s"
    and failed: "\<forall>c \<in> set cs. \<not> fst (poll (inbox c) (hooks c)) \<and> \<not> connect_ok c \<and>
                      ctrl_c c = None \<and> \<not> stop_requested c"
    and five: "length cs = 5"
  shows "(\<exists>s'. start_polling interval (pre @ cs) = Returned s' \<and> \<not> is_running s' \<and>
               consecutive_failures s' = 5)
       \<and> (consecutive_failures s = 0 \<longrightarrow>
            (\<exists>s4. start_polling interval (pre @ take 4 cs) = Polling s4 \<and>
                   consecutive_failures s4 = 4 \<and> connects s4 = connects s + 4))"
proof -
  have inv: "backoff_inv s"
    using backoff_inv_loop [OF backoff_inv_started] pre by (auto simp: start_polling_def)
  have run: "is_running s"
    using polling_is_running pre by (auto simp: start_polling_def)
  have nonneg: "0 \<le> consecutive_failures s" using inv by (simp add: backoff_inv_def)
  have a: "\<exists>s'. polling_loop interval s cs = Returned s' \<and> \<not> is_running s' \<and>
               consecutive_failures s' = 5"
    using nonneg five by (intro failed_reconnects_stop [OF inv run failed]) simp
  have f4: "\<forall>c \<in> set (take 4 cs). \<not> fst (poll (inbox c) (hooks c)) \<and> \<not> connect_ok c \<and>
                      ctrl_c c = None \<and> \<not> stop_requested c"
    using failed by (meson in_set_takeD)
  have b: "\<exists>s4. polling_loop interval s (take 4 cs) = Polling s4 \<and>
                   consecutive_failures s4 = 4 \<and> connects s4 = connects s + 4"
    if "consecutive_failures s = 0"
    using failed_reconnects_keep_polling [OF inv run f4, of interval] that five by simp
  show ?thesis
    using a b pre by (simp add: start_polling_def polling_loop_append)
qed

theorem five_failed_reconnects_stop_the_poller_witness:
  "start_polling 60 ([] :: unit cycle list) = Polling started
   \<and> (\<exists>s'. start_polling 60
        (replicate 5 \<lparr>inbox = \<lparr>select_inbox = Some OSError, search_unseen = Inr (''OK'', []),
                                 fetch_rfc822 = (\<lambda>_. Inl KeyError)\<rparr>,
                       hooks = \<lparr>handler = (\<lambda>_ (_::unit). None), is_processed = None,
                                 subject_of = (\<lambda>_. Inr '''')\<rparr>,
                       connect_ok = False, ctrl_c = None, stop_requested = False\<rparr>)
        = Returned s' \<and> \<not> is_running s' \<and> consecutive_failures s' = 5)"
proof -
  let ?c = "\<lparr>inbox = \<lparr>select_inbox = Some OSError, search_unseen = Inr (''OK'', []),
                                 fetch_rfc822 = (\<lambda>_. Inl KeyError)\<rparr>,
                       hooks = \<lparr>handler = (\<lambda>_ (_::unit). None), is_processed = None,
                                 subject_of = (\<lambda>_. Inr '''')\<rparr>,
                       connect_ok = False, ctrl_c = None, stop_requested = False\<rparr>"
  have p: "start_polling 60 ([] :: unit cycle list) = Polling started"
    by (simp add: start_polling_def started_def)
  have f: "\<forall>c \<in> set (replicate 5 ?c). \<not> fst (poll (inbox c) (hooks c)) \<and> \<not> connect_ok c \<and>
                      ctrl_c c = None \<and> \<not> stop_requested c"
    by (simp add: poll_def get_unread_emails_def fetch_unseen_def connection_error_def
          isinstance_def)
  from five_failed_reconnects_stop_the_poller [OF p f] p
  show ?thesis by simp
qed


lemma three_failures_back_off:
  "start_polling 60
     (replicate 3
      \<lparr>inbox = \<lparr>select_inbox = Some OSError, search_unseen = Inr (''OK'', []),
                 fetch_rfc822 = (\<lambda>_. Inl KeyError)\<rparr>,
       hooks = \<lparr>handler = (\<lambda>_ (_::unit). None), is_processed = None,
                 subject_of = (\<lambda>_. Inr [])\<rparr>,
       connect_ok = False, ctrl_c = None, stop_requested = False\<rparr>)
   = Polling \<lparr>is_running = True, max_retry_delay = 60, poll_count = 3,
              consecutive_failures = 3, retry_delay = 40,
              slept = [Backoff 5, Backoff 10, Backoff 20], connects = 3\<rparr>"
  by (simp add: start_polling_def started_def polling_cycle_def time_sleep_def poll_def
        get_unread_emails_def fetch_unseen_def Let_def connection_error_def isinstance_def
        numeral_eq_Suc)

text \<open>
  C1 on the path through \<open>except Exception\<close>. With a negative interval,
  \<open>time.sleep(interval)\<close> raises \<open>ValueError\<close> after a successful poll; the handler counts a
  failure, sleeps and reconnects, and on a successful reconnect leaves
  \<open>consecutive_failures\<close> at 1, where the branch after a failed poll resets it to 0.
  Four failed reconnects after that stop the poller.
\<close>

theorem reconnect_after_unexpected_error_keeps_failure_count:
  "start_polling (-1)
     [\<lparr>inbox = \<lparr>select_inbox = None, search_unseen = Inr (''OK'', []),
                 fetch_rfc822 = (\<lambda>_. Inl KeyError)\<rparr>,
       hooks = \<lparr>handler = (\<lambda>_ (_::unit). None), is_processed = None,
                 subject_of = (\<lambda>_. Inr '''')\<rparr>,
       connect_ok = True, ctrl_c = None, stop_requested = False\<rparr>]
   = Polling \<lparr>is_running = True, max_retry_delay = 60, poll_count = 1,
              consecutive_failures = 1, retry_delay = 5,
              slept = [Interval (- 1), Backoff 5], connects = 1\<rparr>
   \<and> start_polling (-1)
     (\<lparr>inbox = \<lparr>select_inbox = None, search_unseen = Inr (''OK'', []),
                 fetch_rfc822 = (\<lambda>_. Inl KeyError)\<rparr>,
       hooks = \<lparr>handler = (\<lambda>_ (_::unit). None), is_processed = None,
                 subject_of = (\<lambda>_. Inr '''')\<rparr>,
       connect_ok = True, ctrl_c = None, stop_requested = False\<rparr> #
      replicate 4
      \<lparr>inbox = \<lparr>select_inbox = Some OSError, search_unseen = Inr (''OK'', []),
                 fetch_rfc822 = (\<lambda>_. Inl KeyError)\<rparr>,
       hooks = \<lparr>handler = (\<lambda>_ (_::unit). None), is_processed = None,
                 subject_of = (\<lambda>_. Inr '''')\<rparr>,
       connect_ok = False, ctrl_c = None, stop_requested = False\<rparr>)
   = Returned \<lparr>is_running = False, max_retry_delay = 60, poll_count = 5,
              consecutive_failures = 5, retry_delay = 60,
              slept = [Interval (- 1), Backoff 5, Backoff 5, Backoff 10, Backoff 20, Backoff 40],
              connects = 5\<rparr>"
  by (simp add: start_polling_def started_def polling_cycle_def on_unexpected_def
        time_sleep_def poll_def get_unread_emails_def fetch_unseen_def Let_def
        connection_error_def isinstance_def numeral_eq_Suc)

section \<open>Properties of structured generation\<close>

lemma three_attempts: "[0 ..< nat (2 + 1)] = [0, 1, 2]"
  by (simp add: upt_rec)



section \<open>Properties of the processing pipeline\<close>

lemma ask_json_db_log: "ask_json w prompt st = (r, st') \<Longrightarrow> db_log st' = db_log st"
  by (auto simp: ask_json_def split: prod.splits)

lemma extract_assignment_entities_db_log:
  "extract_assignment_entities w subj bod st = (r, st') \<Longrightarrow> db_log st' = db_log st"
  by (auto simp: extract_assignment_entities_def split: prod.splits sum.splits
           dest: ask_json_db_log)



text \<open>
  C7 as the code has it. When the extracted entities are a dict whose \<open>due_date\<close> is
  missing or \<open>null\<close>, \<open>process_assignment\<close> returns the \<open>no_due_date\<close> failure; when it is a
  value that \<open>datetime.fromisoformat\<close> does not parse, it returns the \<open>invalid_due_date\<close>
  failure (the \<open>no_due_date\<close> one when the value is false, as the empty string is). Both
  results carry \<open>success: False\<close>, the error code and a message string; nothing is raised and
  no persistence call is made. When the decoded extraction is not a dict, \<open>entities.get\<close>
  raises \<open>AttributeError\<close> out of \<open>process_assignment\<close>, again before any persistence call.
\<close>

theorem process_assignment_without_due_date:
  "(extract_assignment_entities w (msg_subject parsed) (msg_body parsed) st = (JObj items, st1) \<longrightarrow>
      (map_of items ''due_date'' = None \<or> map_of items ''due_date'' = Some JNull \<longrightarrow>
         process_assignment w parsed st = (Inr no_due_date, st1))
      \<and> (map_of items ''due_date'' = Some dd \<longrightarrow> parse_due_date w dd = None \<longrightarrow>
         process_assignment w parsed st =
           (Inr (if truthy dd then invalid_due_date else no_due_date), st1)))
   \<and> (extract_assignment_entities w (msg_subject parsed) (msg_body parsed) st = (v, st1) \<longrightarrow>
      (\<forall>its. v \<noteq> JObj its) \<longrightarrow>
         process_assignment w parsed st = (Inl AttributeError, st1))
   \<and> (extract_assignment_entities w (msg_subject parsed) (msg_body parsed) st = (v, st1) \<longrightarrow>
         db_log st1 = db_log st)
   \<and> parse_due_date w (JStr s) = fromisoformat w s
   \<and> (\<exists>m. no_due_date = JObj [(''success'', JBool False), (''error'', JStr ''no_due_date''),
                               (''message'', JStr m)])
   \<and> (\<exists>m. invalid_due_date = JObj [(''success'', JBool False),
                                    (''error'', JStr ''invalid_due_date''),
                                    (''message'', JStr m)])"
proof (intro conjI impI)
  assume "extract_assignment_entities w (msg_subject parsed) (msg_body parsed) st = (JObj items, st1)"
    and "map_of items ''due_date'' = None \<or> map_of items ''due_date'' = Some JNull"
  then show "process_assignment w parsed st = (Inr no_due_date, st1)"
    by (auto simp: process_assignment_def dict_get_def truthy_def)
next
  assume "extract_assignment_entities w (msg_subject parsed) (msg_body parsed) st = (JObj items, st1)"
    and "map_of items ''due_date'' = Some dd" "parse_due_date w dd = None"
  then show "process_assignment w parsed st =
              (Inr (if truthy dd then invalid_due_date else no_due_date), st1)"
    by (simp add: process_assignment_def dict_get_def)
next
  assume "extract_assignment_entities w (msg_subject parsed) (msg_body parsed) st = (v, st1)"
    and "\<forall>its. v \<noteq> JObj its"
  then show "process_assignment w parsed st = (Inl AttributeError, st1)"
    by (cases v) (simp_all add: process_assignment_def)
next
  assume "extract_assignment_entities w (msg_subject parsed) (msg_body parsed) st = (v, st1)"
  then show "db_log st1 = db_log st"
    by (rule extract_assignment_entities_db_log)
next
  show "parse_due_date w (JStr s) = fromisoformat w s"
    by (simp add: parse_due_date_def)
qed (simp_all add: no_due_date_def invalid_due_date_def)

text \<open>
  The claim C7 fails when the backend answers \<open>[]\<close>, which decodes to a list: the
  extraction has no due date, and \<open>entities.get('due_date')\<close> raises \<open>AttributeError\<close> out
  of \<open>process_assignment\<close> instead of the failure result.
\<close>

theorem process_assignment_raises_counterexample:
  "process_assignment
      (\<lparr>ai_provider = Claude,
       json_loads = (\<lambda>s. if s = ''[]'' then Inr (JArr []) else Inl JSONDecodeError),
       model = (\<lambda>k p. Inr ''[]''), now_isoformat = ''2024-10-01T09:00:00'',
       fromisoformat = (\<lambda>s. None), strftime = (\<lambda>d f. f),
       minus_hours = (\<lambda>d h. Some d), str_of = (\<lambda>v. ''?''),
       str_exn = (\<lambda>e. ''error''), basename = (\<lambda>p. p), get_connection = None,
       classes_get_or_create = (\<lambda>n. Inr (JNum 1)),
       assignments_create = (\<lambda>c t d x. Inr (JNum 1)),
       notes_create = (\<lambda>c n m. Inr (JNum 1)),
       process_and_store = (\<lambda>a b c d. Inr (JObj [])),
       format_note = (\<lambda>a b c d e f g h. Inr ''note.txt''),
       assignments_get_upcoming = (\<lambda>d. Inr []), notes_search = (\<lambda>q. Inr []),
       classes_get_all = Inr []\<rparr> :: unit world)
      \<lparr>msg_id = ''test-123'', msg_from = ''test@test.com'', msg_subject = ''Data Mining Project'',
        msg_body = ''Need to implement decision trees.'', msg_date = ''2024-10-01'',
        msg_attachments = []\<rparr>
      \<lparr>calls = 0, db_log = []\<rparr>
     = (Inl AttributeError, \<lparr>calls = 1, db_log = []\<rparr>)"
  by code_simp

theorem process_assignment_without_due_date_witness:
  "process_assignment
      (\<lparr>ai_provider = Claude,
       json_loads = (\<lambda>s. if s = ''{}'' then Inr (JObj []) else Inl JSONDecodeError),
       model = (\<lambda>k p. Inr ''{}''), now_isoformat = ''2024-10-01T09:00:00'',
       fromisoformat = (\<lambda>s. None), strftime = (\<lambda>d f. f),
       minus_hours = (\<lambda>d h. Some d), str_of = (\<lambda>v. ''?''),
       str_exn = (\<lambda>e. ''error''), basename = (\<lambda>p. p), get_connection = None,
       classes_get_or_create = (\<lambda>n. Inr (JNum 1)),
       assignments_create = (\<lambda>c t d x. Inr (JNum 1)),
       notes_create = (\<lambda>c n m. Inr (JNum 1)),
       process_and_store = (\<lambda>a b c d. Inr (JObj [])),
       format_note = (\<lambda>a b c d e f g h. Inr ''note.txt''),
       assignments_get_upcoming = (\<lambda>d. Inr []), notes_search = (\<lambda>q. Inr []),
       classes_get_all = Inr []\<rparr> :: unit world)
      \<lparr>msg_id = ''test-123'', msg_from = ''test@test.com'', msg_subject = ''Data Mining Project'',
        msg_body = ''Need to implement decision trees.'', msg_date = ''2024-10-01'',
        msg_attachments = []\<rparr>
      \<lparr>calls = 0, db_log = []\<rparr>
     = (Inr no_due_date, \<lparr>calls = 1, db_log = []\<rparr>)
   \<and> process_assignment
      (\<lparr>ai_provider = Claude,
       json_loads = (\<lambda>s. if s = (''{'' @ [CHR 0x22] @ ''due_date'' @ [CHR 0x22] @ '': '' @ [CHR 0x22] @ ''soon'' @ [CHR 0x22] @ ''}'') then Inr (JObj [(''due_date'', JStr ''soon'')]) else Inl JSONDecodeError),
       model = (\<lambda>k p. Inr (''{'' @ [CHR 0x22] @ ''due_date'' @ [CHR 0x22] @ '': '' @ [CHR 0x22] @ ''soon'' @ [CHR 0x22] @ ''}'')),
       now_isoformat = ''2024-10-01T09:00:00'', fromisoformat = (\<lambda>s. None),
       strftime = (\<lambda>d f. f), minus_hours = (\<lambda>d h. Some d),
       str_of = (\<lambda>v. ''?''), str_exn = (\<lambda>e. ''error''),
       basename = (\<lambda>p. p), get_connection = None,
       classes_get_or_create = (\<lambda>n. Inr (JNum 1)),
       assignments_create = (\<lambda>c t d x. Inr (JNum 1)),
       notes_create = (\<lambda>c n m. Inr (JNum 1)),
       process_and_store = (\<lambda>a b c d. Inr (JObj [])),
       format_note = (\<lambda>a b c d e f g h. Inr ''note.txt''),
       assignments_get_upcoming = (\<lambda>d. Inr []), notes_search = (\<lambda>q. Inr []),
       classes_get_all = Inr []\<rparr> :: unit world)
      \<lparr>msg_id = ''test-123'', msg_from = ''test@test.com'', msg_subject = ''Data Mining Project'',
        msg_body = ''Need to implement decision trees.'', msg_date = ''2024-10-01'',
        msg_attachments = []\<rparr>
      \<lparr>calls = 0, db_log = []\<rparr>
     = (Inr invalid_due_date, \<lparr>calls = 1, db_log = []\<rparr>)
   \<and> process_assignment
      (\<lparr>ai_provider = Claude,
       json_loads = (\<lambda>s. if s = ''[]'' then Inr (JArr []) else Inl JSONDecodeError),
       model = (\<lambda>k p. Inr ''[]''), now_isoformat = ''2024-10-01T09:00:00'',
       fromisoformat = (\<lambda>s. None), strftime = (\<lambda>d f. f),
       minus_hours = (\<lambda>d h. Some d), str_of = (\<lambda>v. ''?''),
       str_exn = (\<lambda>e. ''error''), basename = (\<lambda>p. p), get_connection = None,
       classes_get_or_create = (\<lambda>n. Inr (JNum 1)),
       assignments_create = (\<lambda>c t d x. Inr (JNum 1)),
       notes_create = (\<lambda>c n m. Inr (JNum 1)),
       process_and_store = (\<lambda>a b c d. Inr (JObj [])),
       format_note = (\<lambda>a b c d e f g h. Inr ''note.txt''),
       assignments_get_upcoming = (\<lambda>d. Inr []), notes_search = (\<lambda>q. Inr []),
       classes_get_all = Inr []\<rparr> :: unit world)
      \<lparr>msg_id = ''test-123'', msg_from = ''test@test.com'', msg_subject = ''Data Mining Project'',
        msg_body = ''Need to implement decision trees.'', msg_date = ''2024-10-01'',
        msg_attachments = []\<rparr>
      \<lparr>calls = 0, db_log = []\<rparr>
     = (Inl AttributeError, \<lparr>calls = 1, db_log = []\<rparr>)"
proof -
  let ?p = "\<lparr>msg_id = ''test-123'', msg_from = ''test@test.com'', msg_subject = ''Data Mining Project'',
        msg_body = ''Need to implement decision trees.'', msg_date = ''2024-10-01'',
        msg_attachments = []\<rparr>"
  let ?st = "\<lparr>calls = 0, db_log = []\<rparr> :: unit pipeline"
  let ?st1 = "\<lparr>calls = 1, db_log = []\<rparr> :: unit pipeline"
  let ?w = "(\<lparr>ai_provider = Claude,
       json_loads = (\<lambda>s. if s = ''{}'' then Inr (JObj []) else Inl JSONDecodeError),
       model = (\<lambda>k p. Inr ''{}''), now_isoformat = ''2024-10-01T09:00:00'',
       fromisoformat = (\<lambda>s. None), strftime = (\<lambda>d f. f),
       minus_hours = (\<lambda>d h. Some d), str_of = (\<lambda>v. ''?''),
       str_exn = (\<lambda>e. ''error''), basename = (\<lambda>p. p), get_connection = None,
       classes_get_or_create = (\<lambda>n. Inr (JNum 1)),
       assignments_create = (\<lambda>c t d x. Inr (JNum 1)),
       notes_create = (\<lambda>c n m. Inr (JNum 1)),
       process_and_store = (\<lambda>a b c d. Inr (JObj [])),
       format_note = (\<lambda>a b c d e f g h. Inr ''note.txt''),
       assignments_get_upcoming = (\<lambda>d. Inr []), notes_search = (\<lambda>q. Inr []),
       classes_get_all = Inr []\<rparr> :: unit world)"
  let ?v = "(\<lparr>ai_provider = Claude,
       json_loads = (\<lambda>s. if s = (''{'' @ [CHR 0x22] @ ''due_date'' @ [CHR 0x22] @ '': '' @ [CHR 0x22] @ ''soon'' @ [CHR 0x22] @ ''}'') then Inr (JObj [(''due_date'', JStr ''soon'')]) else Inl JSONDecodeError),
       model = (\<lambda>k p. Inr (''{'' @ [CHR 0x22] @ ''due_date'' @ [CHR 0x22] @ '': '' @ [CHR 0x22] @ ''soon'' @ [CHR 0x22] @ ''}'')),
       now_isoformat = ''2024-10-01T09:00:00'', fromisoformat = (\<lambda>s. None),
       strftime = (\<lambda>d f. f), minus_hours = (\<lambda>d h. Some d),
       str_of = (\<lambda>v. ''?''), str_exn = (\<lambda>e. ''error''),
       basename = (\<lambda>p. p), get_connection = None,
       classes_get_or_create = (\<lambda>n. Inr (JNum 1)),
       assignments_create = (\<lambda>c t d x. Inr (JNum 1)),
       notes_create = (\<lambda>c n m. Inr (JNum 1)),
       process_and_store = (\<lambda>a b c d. Inr (JObj [])),
       format_note = (\<lambda>a b c d e f g h. Inr ''note.txt''),
       assignments_get_upcoming = (\<lambda>d. Inr []), notes_search = (\<lambda>q. Inr []),
       classes_get_all = Inr []\<rparr> :: unit world)"
  let ?a = "(\<lparr>ai_provider = Claude,
       json_loads = (\<lambda>s. if s = ''[]'' then Inr (JArr []) else Inl JSONDecodeError),
       model = (\<lambda>k p. Inr ''[]''), now_isoformat = ''2024-10-01T09:00:00'',
       fromisoformat = (\<lambda>s. None), strftime = (\<lambda>d f. f),
       minus_hours = (\<lambda>d h. Some d), str_of = (\<lambda>v. ''?''),
       str_exn = (\<lambda>e. ''error''), basename = (\<lambda>p. p), get_connection = None,
       classes_get_or_create = (\<lambda>n. Inr (JNum 1)),
       assignments_create = (\<lambda>c t d x. Inr (JNum 1)),
       notes_create = (\<lambda>c n m. Inr (JNum 1)),
       process_and_store = (\<lambda>a b c d. Inr (JObj [])),
       format_note = (\<lambda>a b c d e f g h. Inr ''note.txt''),
       assignments_get_upcoming = (\<lambda>d. Inr []), notes_search = (\<lambda>q. Inr []),
       classes_get_all = Inr []\<rparr> :: unit world)"
  have a: "extract_assignment_entities ?w (msg_subject ?p) (msg_body ?p) ?st = (JObj [], ?st1)"
    by code_simp
  have b: "extract_assignment_entities ?v (msg_subject ?p) (msg_body ?p) ?st
           = (JObj [(''due_date'', JStr ''soon'')], ?st1)"
    by code_simp
  have c: "extract_assignment_entities ?a (msg_subject ?p) (msg_body ?p) ?st = (JArr [], ?st1)"
    by code_simp
  from process_assignment_without_due_date [of ?w ?p ?st "[]" ?st1 _ "JObj []"] a
  have 1: "process_assignment ?w ?p ?st = (Inr no_due_date, ?st1)"
    by simp
  from process_assignment_without_due_date
         [of ?v ?p ?st "[(''due_date'', JStr ''soon'')]" ?st1 "JStr ''soon''"
             "JObj [(''due_date'', JStr ''soon'')]"] b
  have 2: "process_assignment ?v ?p ?st = (Inr invalid_due_date, ?st1)"
    by (simp add: truthy_def parse_due_date_def)
  from process_assignment_without_due_date [of ?a ?p ?st "[]" ?st1 _ "JArr []"] c
  have 3: "process_assignment ?a ?p ?st = (Inl AttributeError, ?st1)"
    by simp
  from 1 2 3 show ?thesis by simp
qed

lemma contains_mid: "contains sub (a @ sub @ b)"
proof (induction a)
  case Nil
  show ?case
  proof (cases "sub @ b")
    case Nil
    then show ?thesis by simp
  next
    case (Cons x xs)
    have "startswith (sub @ b) sub" by (simp add: startswith_def)
    then show ?thesis using Cons by simp
  qed
next
  case (Cons c a)
  then show ?case by simp
qed

lemma lower_append: "lower (a @ b) = lower a @ lower b"
  by (simp add: lower_def)

lemma intent_prompt_mentions_intent:
  "contains ''intent'' (lower (sys @ '' '' @ format_intent_prompt subj bod))"
proof -
  have l: "lower ''Classify the email intent as NOTE, ASSIGNMENT, QUERY, or GENERAL.\<newline>''
           = ''classify the email '' @ ''intent'' @ '' as note, assignment, query, or general.\<newline>''"
    by code_simp
  have "\<exists>a b. lower (sys @ '' '' @ format_intent_prompt subj bod) = a @ ''intent'' @ b"
    unfolding format_intent_prompt_def lower_append l
    by (metis append.assoc)
  then show ?thesis using contains_mid by metis
qed

lemma intent_fallback:
  "get_fallback_structure sys (format_intent_prompt subj bod) =
     JObj [(''intent'', JStr ''GENERAL''), (''confidence'', JNum (3 / 10)),
           (''reasoning'', JStr ''Fallback - model failed to classify'')]"
  using intent_prompt_mentions_intent [of sys subj bod]
  by (simp add: get_fallback_structure_def Let_def)

lemma attempts_all_fail:
  assumes "attempt_once loads backend sys usr k = Inl e0" "isinstance e0 JSONDecodeError"
    and "attempt_once loads backend sys usr (k + 1) = Inl e1" "isinstance e1 JSONDecodeError"
    and "attempt_once loads backend sys usr (k + 2) = Inl e2"
  shows "local_generate_json loads backend sys usr 2 k = (get_fallback_structure sys usr, k + 3)"
  unfolding local_generate_json_def three_attempts
  using assms by (simp add: numeral_eq_Suc)

text \<open>
  C8 as the code has it. When the structured-generation call raises, which only the cloud
  providers do (on a backend error or on output that does not decode), \<open>classify_intent\<close>
  returns intent \<open>GENERAL\<close>, confidence 0.5 and the reasoning
  \<open>Failed to classify, defaulting to GENERAL\<close>. With the local provider the call does not
  raise: output that does not decode within the three attempts gives the local model's own
  fallback, intent \<open>GENERAL\<close>, confidence 0.3 and the reasoning
  \<open>Fallback - model failed to classify\<close>. On both paths the intent is \<open>GENERAL\<close>.
\<close>

theorem classification_fallbacks:
  "(ai_provider w \<noteq> Local \<longrightarrow>
      generate_json (ai_provider w) (json_loads w) (model w) JARVIS_SYSTEM_PROMPT
        (format_intent_prompt subj bod) (calls st) = (Inl e, k) \<longrightarrow>
      classify_intent w subj bod st =
        (JObj [(''intent'', JStr ''GENERAL''), (''confidence'', JNum (5 / 10)),
               (''reasoning'', JStr ''Failed to classify, defaulting to GENERAL'')],
         st\<lparr>calls := k\<rparr>))
   \<and> (ai_provider w = Local \<longrightarrow>
      attempt_once (json_loads w) (model w) JARVIS_SYSTEM_PROMPT (format_intent_prompt subj bod)
        (calls st) = Inl e0 \<longrightarrow> isinstance e0 JSONDecodeError \<longrightarrow>
      attempt_once (json_loads w) (model w) JARVIS_SYSTEM_PROMPT (format_intent_prompt subj bod)
        (calls st + 1) = Inl e1 \<longrightarrow> isinstance e1 JSONDecodeError \<longrightarrow>
      attempt_once (json_loads w) (model w) JARVIS_SYSTEM_PROMPT (format_intent_prompt subj bod)
        (calls st + 2) = Inl e2 \<longrightarrow>
      classify_intent w subj bod st =
        (JObj [(''intent'', JStr ''GENERAL''), (''confidence'', JNum (3 / 10)),
               (''reasoning'', JStr ''Fallback - model failed to classify'')],
         st\<lparr>calls := calls st + 3\<rparr>))"
proof (intro conjI impI)
  assume "ai_provider w \<noteq> Local"
    and "generate_json (ai_provider w) (json_loads w) (model w) JARVIS_SYSTEM_PROMPT
        (format_intent_prompt subj bod) (calls st) = (Inl e, k)"
  then show "classify_intent w subj bod st =
        (JObj [(''intent'', JStr ''GENERAL''), (''confidence'', JNum (5 / 10)),
               (''reasoning'', JStr ''Failed to classify, defaulting to GENERAL'')],
         st\<lparr>calls := k\<rparr>)"
    by (simp add: classify_intent_def ask_json_def)
next
  assume l: "ai_provider w = Local"
    and a: "attempt_once (json_loads w) (model w) JARVIS_SYSTEM_PROMPT (format_intent_prompt subj bod)
        (calls st) = Inl e0" "isinstance e0 JSONDecodeError"
      "attempt_once (json_loads w) (model w) JARVIS_SYSTEM_PROMPT (format_intent_prompt subj bod)
        (calls st + 1) = Inl e1" "isinstance e1 JSONDecodeError"
      "attempt_once (json_loads w) (model w) JARVIS_SYSTEM_PROMPT (format_intent_prompt subj bod)
        (calls st + 2) = Inl e2"
  show "classify_intent w subj bod st =
        (JObj [(''intent'', JStr ''GENERAL''), (''confidence'', JNum (3 / 10)),
               (''reasoning'', JStr ''Fallback - model failed to classify'')],
         st\<lparr>calls := calls st + 3\<rparr>)"
    using attempts_all_fail [OF a] l
    by (simp add: classify_intent_def ask_json_def generate_json_def intent_fallback)
qed


text \<open>
  The claim C8 fails with the local provider: the backend answers text that does not
  decode, \<open>generate_json\<close> returns the local model's fallback instead of raising, and the
  classification proceeds with confidence 0.3.
\<close>

theorem classification_fallback_counterexample:
  "attempt_once (json_loads (\<lparr>ai_provider = Local,
       json_loads = (\<lambda>s. if s = ''{}'' then Inr (JObj []) else Inl JSONDecodeError),
       model = (\<lambda>k p. Inr ''oops''), now_isoformat = ''2024-10-01T09:00:00'',
       fromisoformat = (\<lambda>s. None), strftime = (\<lambda>d f. f),
       minus_hours = (\<lambda>d h. Some d), str_of = (\<lambda>v. ''?''),
       str_exn = (\<lambda>e. ''error''), basename = (\<lambda>p. p), get_connection = None,
       classes_get_or_create = (\<lambda>n. Inr (JNum 1)),
       assignments_create = (\<lambda>c t d x. Inr (JNum 1)),
       notes_create = (\<lambda>c n m. Inr (JNum 1)),
       process_and_store = (\<lambda>a b c d. Inr (JObj [])),
       format_note = (\<lambda>a b c d e f g h. Inr ''note.txt''),
       assignments_get_upcoming = (\<lambda>d. Inr []), notes_search = (\<lambda>q. Inr []),
       classes_get_all = Inr []\<rparr> :: unit world)) (model (\<lparr>ai_provider = Local,
       json_loads = (\<lambda>s. if s = ''{}'' then Inr (JObj []) else Inl JSONDecodeError),
       model = (\<lambda>k p. Inr ''oops''), now_isoformat = ''2024-10-01T09:00:00'',
       fromisoformat = (\<lambda>s. None), strftime = (\<lambda>d f. f),
       minus_hours = (\<lambda>d h. Some d), str_of = (\<lambda>v. ''?''),
       str_exn = (\<lambda>e. ''error''), basename = (\<lambda>p. p), get_connection = None,
       classes_get_or_create = (\<lambda>n. Inr (JNum 1)),
       assignments_create = (\<lambda>c t d x. Inr (JNum 1)),
       notes_create = (\<lambda>c n m. Inr (JNum 1)),
       process_and_store = (\<lambda>a b c d. Inr (JObj [])),
       format_note = (\<lambda>a b c d e f g h. Inr ''note.txt''),
       assignments_get_upcoming = (\<lambda>d. Inr []), notes_search = (\<lambda>q. Inr []),
       classes_get_all = Inr []\<rparr> :: unit world))
      JARVIS_SYSTEM_PROMPT (format_intent_prompt ''Data Mining Project'' ''Need to implement decision trees.'') 0
     = Inl JSONDecodeError
   \<and> fst (classify_intent
      (\<lparr>ai_provider = Local,
       json_loads = (\<lambda>s. if s = ''{}'' then Inr (JObj []) else Inl JSONDecodeError),
       model = (\<lambda>k p. Inr ''oops''), now_isoformat = ''2024-10-01T09:00:00'',
       fromisoformat = (\<lambda>s. None), strftime = (\<lambda>d f. f),
       minus_hours = (\<lambda>d h. Some d), str_of = (\<lambda>v. ''?''),
       str_exn = (\<lambda>e. ''error''), basename = (\<lambda>p. p), get_connection = None,
       classes_get_or_create = (\<lambda>n. Inr (JNum 1)),
       assignments_create = (\<lambda>c t d x. Inr (JNum 1)),
       notes_create = (\<lambda>c n m. Inr (JNum 1)),
       process_and_store = (\<lambda>a b c d. Inr (JObj [])),
       format_note = (\<lambda>a b c d e f g h. Inr ''note.txt''),
       assignments_get_upcoming = (\<lambda>d. Inr []), notes_search = (\<lambda>q. Inr []),
       classes_get_all = Inr []\<rparr> :: unit world)
      ''Data Mining Project'' ''Need to implement decision trees.'' \<lparr>calls = 0, db_log = []\<rparr>)
     = JObj [(''intent'', JStr ''GENERAL''), (''confidence'', JNum (3 / 10)),
             (''reasoning'', JStr ''Fallback - model failed to classify'')]
   \<and> fst (classify_intent
      (\<lparr>ai_provider = Local,
       json_loads = (\<lambda>s. if s = ''{}'' then Inr (JObj []) else Inl JSONDecodeError),
       model = (\<lambda>k p. Inr ''oops''), now_isoformat = ''2024-10-01T09:00:00'',
       fromisoformat = (\<lambda>s. None), strftime = (\<lambda>d f. f),
       minus_hours = (\<lambda>d h. Some d), str_of = (\<lambda>v. ''?''),
       str_exn = (\<lambda>e. ''error''), basename = (\<lambda>p. p), get_connection = None,
       classes_get_or_create = (\<lambda>n. Inr (JNum 1)),
       assignments_create = (\<lambda>c t d x. Inr (JNum 1)),
       notes_create = (\<lambda>c n m. Inr (JNum 1)),
       process_and_store = (\<lambda>a b c d. Inr (JObj [])),
       format_note = (\<lambda>a b c d e f g h. Inr ''note.txt''),
       assignments_get_upcoming = (\<lambda>d. Inr []), notes_search = (\<lambda>q. Inr []),
       classes_get_all = Inr []\<rparr> :: unit world)
      ''Data Mining Project'' ''Need to implement decision trees.'' \<lparr>calls = 0, db_log = []\<rparr>)
     \<noteq> JObj [(''intent'', JStr ''GENERAL''), (''confidence'', JNum (5 / 10)),
             (''reasoning'', JStr ''classification failed'')]"
proof -
  let ?l = "(\<lparr>ai_provider = Local,
       json_loads = (\<lambda>s. if s = ''{}'' then Inr (JObj []) else Inl JSONDecodeError),
       model = (\<lambda>k p. Inr ''oops''), now_isoformat = ''2024-10-01T09:00:00'',
       fromisoformat = (\<lambda>s. None), strftime = (\<lambda>d f. f),
       minus_hours = (\<lambda>d h. Some d), str_of = (\<lambda>v. ''?''),
       str_exn = (\<lambda>e. ''error''), basename = (\<lambda>p. p), get_connection = None,
       classes_get_or_create = (\<lambda>n. Inr (JNum 1)),
       assignments_create = (\<lambda>c t d x. Inr (JNum 1)),
       notes_create = (\<lambda>c n m. Inr (JNum 1)),
       process_and_store = (\<lambda>a b c d. Inr (JObj [])),
       format_note = (\<lambda>a b c d e f g h. Inr ''note.txt''),
       assignments_get_upcoming = (\<lambda>d. Inr []), notes_search = (\<lambda>q. Inr []),
       classes_get_all = Inr []\<rparr> :: unit world)"
  let ?s = "''Data Mining Project''"
  let ?b = "''Need to implement decision trees.''"
  have clean: "clean_json_response (strip ''oops'') = ''oops''"
    by code_simp
  have l: "attempt_once (json_loads ?l) (model ?l) JARVIS_SYSTEM_PROMPT
             (format_intent_prompt ?s ?b) j = Inl JSONDecodeError" for j
    by (simp add: attempt_once_def local_generate_def clean)
  have i: "isinstance JSONDecodeError JSONDecodeError" by (simp add: isinstance_def)
  have "classify_intent ?l ?s ?b \<lparr>calls = 0, db_log = []\<rparr>
     = (JObj [(''intent'', JStr ''GENERAL''), (''confidence'', JNum (3 / 10)),
              (''reasoning'', JStr ''Fallback - model failed to classify'')],
        \<lparr>calls = 3, db_log = []\<rparr>)"
    using attempts_all_fail [OF l i l i l, of 0]
    by (simp add: classify_intent_def ask_json_def generate_json_def intent_fallback)
  then show ?thesis using l [of 0] by simp
qed

theorem classification_fallbacks_witness:
  "classify_intent
      (\<lparr>ai_provider = Claude,
       json_loads = (\<lambda>s. if s = ''{}'' then Inr (JObj []) else Inl JSONDecodeError),
       model = (\<lambda>k p. Inl ConnectionError), now_isoformat = ''2024-10-01T09:00:00'',
       fromisoformat = (\<lambda>s. None), strftime = (\<lambda>d f. f),
       minus_hours = (\<lambda>d h. Some d), str_of = (\<lambda>v. ''?''),
       str_exn = (\<lambda>e. ''error''), basename = (\<lambda>p. p), get_connection = None,
       classes_get_or_create = (\<lambda>n. Inr (JNum 1)),
       assignments_create = (\<lambda>c t d x. Inr (JNum 1)),
       notes_create = (\<lambda>c n m. Inr (JNum 1)),
       process_and_store = (\<lambda>a b c d. Inr (JObj [])),
       format_note = (\<lambda>a b c d e f g h. Inr ''note.txt''),
       assignments_get_upcoming = (\<lambda>d. Inr []), notes_search = (\<lambda>q. Inr []),
       classes_get_all = Inr []\<rparr> :: unit world)
      ''Data Mining Project'' ''Need to implement decision trees.'' \<lparr>calls = 0, db_log = []\<rparr>
     = (JObj [(''intent'', JStr ''GENERAL''), (''confidence'', JNum (5 / 10)),
              (''reasoning'', JStr ''Failed to classify, defaulting to GENERAL'')],
        \<lparr>calls = 1, db_log = []\<rparr>)
   \<and> classify_intent
      (\<lparr>ai_provider = Local,
       json_loads = (\<lambda>s. if s = ''{}'' then Inr (JObj []) else Inl JSONDecodeError),
       model = (\<lambda>k p. Inr ''oops''), now_isoformat = ''2024-10-01T09:00:00'',
       fromisoformat = (\<lambda>s. None), strftime = (\<lambda>d f. f),
       minus_hours = (\<lambda>d h. Some d), str_of = (\<lambda>v. ''?''),
       str_exn = (\<lambda>e. ''error''), basename = (\<lambda>p. p), get_connection = None,
       classes_get_or_create = (\<lambda>n. Inr (JNum 1)),
       assignments_create = (\<lambda>c t d x. Inr (JNum 1)),
       notes_create = (\<lambda>c n m. Inr (JNum 1)),
       process_and_store = (\<lambda>a b c d. Inr (JObj [])),
       format_note = (\<lambda>a b c d e f g h. Inr ''note.txt''),
       assignments_get_upcoming = (\<lambda>d. Inr []), notes_search = (\<lambda>q. Inr []),
       classes_get_all = Inr []\<rparr> :: unit world)
      ''Data Mining Project'' ''Need to implement decision trees.'' \<lparr>calls = 0, db_log = []\<rparr>
     = (JObj [(''intent'', JStr ''GENERAL''), (''confidence'', JNum (3 / 10)),
              (''reasoning'', JStr ''Fallback - model failed to classify'')],
        \<lparr>calls = 3, db_log = []\<rparr>)"
proof -
  let ?c = "(\<lparr>ai_provider = Claude,
       json_loads = (\<lambda>s. if s = ''{}'' then Inr (JObj []) else Inl JSONDecodeError),
       model = (\<lambda>k p. Inl ConnectionError), now_isoformat = ''2024-10-01T09:00:00'',
       fromisoformat = (\<lambda>s. None), strftime = (\<lambda>d f. f),
       minus_hours = (\<lambda>d h. Some d), str_of = (\<lambda>v. ''?''),
       str_exn = (\<lambda>e. ''error''), basename = (\<lambda>p. p), get_connection = None,
       classes_get_or_create = (\<lambda>n. Inr (JNum 1)),
       assignments_create = (\<lambda>c t d x. Inr (JNum 1)),
       notes_create = (\<lambda>c n m. Inr (JNum 1)),
       process_and_store = (\<lambda>a b c d. Inr (JObj [])),
       format_note = (\<lambda>a b c d e f g h. Inr ''note.txt''),
       assignments_get_upcoming = (\<lambda>d. Inr []), notes_search = (\<lambda>q. Inr []),
       classes_get_all = Inr []\<rparr> :: unit world)"
  let ?l = "(\<lparr>ai_provider = Local,
       json_loads = (\<lambda>s. if s = ''{}'' then Inr (JObj []) else Inl JSONDecodeError),
       model = (\<lambda>k p. Inr ''oops''), now_isoformat = ''2024-10-01T09:00:00'',
       fromisoformat = (\<lambda>s. None), strftime = (\<lambda>d f. f),
       minus_hours = (\<lambda>d h. Some d), str_of = (\<lambda>v. ''?''),
       str_exn = (\<lambda>e. ''error''), basename = (\<lambda>p. p), get_connection = None,
       classes_get_or_create = (\<lambda>n. Inr (JNum 1)),
       assignments_create = (\<lambda>c t d x. Inr (JNum 1)),
       notes_create = (\<lambda>c n m. Inr (JNum 1)),
       process_and_store = (\<lambda>a b c d. Inr (JObj [])),
       format_note = (\<lambda>a b c d e f g h. Inr ''note.txt''),
       assignments_get_upcoming = (\<lambda>d. Inr []), notes_search = (\<lambda>q. Inr []),
       classes_get_all = Inr []\<rparr> :: unit world)"
  let ?s = "''Data Mining Project''"
  let ?b = "''Need to implement decision trees.''"
  let ?st = "\<lparr>calls = 0, db_log = []\<rparr> :: unit pipeline"
  have c: "generate_json (ai_provider ?c) (json_loads ?c) (model ?c) JARVIS_SYSTEM_PROMPT
             (format_intent_prompt ?s ?b) (calls ?st) = (Inl ConnectionError, 1)"
    by (simp add: generate_json_def generate_def)
  have clean: "clean_json_response (strip ''oops'') = ''oops''"
    by code_simp
  have l: "attempt_once (json_loads ?l) (model ?l) JARVIS_SYSTEM_PROMPT
             (format_intent_prompt ?s ?b) j = Inl JSONDecodeError" for j
    by (simp add: attempt_once_def local_generate_def clean)
  have i: "isinstance JSONDecodeError JSONDecodeError" by (simp add: isinstance_def)
  from classification_fallbacks [of ?c ?s ?b ?st ConnectionError 1] c
       classification_fallbacks [of ?l ?s ?b ?st _ _ JSONDecodeError JSONDecodeError JSONDecodeError] l i
  show ?thesis by simp
qed











section \<open>Properties of the processing queue\<close>

lemma run_events_append: "run_events s (a @ b) = run_events (run_events s a) b"
  by (simp add: run_events_def)

lemma run_events_Cons: "run_events s (e # evs) = run_events (run_event s e) evs"
  by (simp add: run_events_def)

lemma run_events_Nil: "run_events s [] = s"
  by (simp add: run_events_def)

lemma run_event_stopped:
  assumes "\<not> running s"
  shows "queue (run_event s e) = queue s \<and> total_processed (run_event s e) = total_processed s \<and>
         total_errors (run_event s e) = total_errors s \<and> \<not> running (run_event s e) \<and>
         (worker_alive (run_event s e) \<longrightarrow> worker_alive s) \<and>
         (e = Worker \<longrightarrow> \<not> worker_alive (run_event s e))"
  using assms by (cases e) (simp_all add: submit_def stop_def worker_def)

lemma run_events_stopped:
  assumes "\<not> running s"
  shows "queue (run_events s evs) = queue s \<and> total_processed (run_events s evs) = total_processed s \<and>
         total_errors (run_events s evs) = total_errors s \<and> \<not> running (run_events s evs) \<and>
         (worker_alive (run_events s evs) \<longrightarrow> worker_alive s) \<and>
         (Worker \<in> set evs \<longrightarrow> \<not> worker_alive (run_events s evs))"
  using assms
proof (induction evs arbitrary: s)
  case Nil
  then show ?case by (simp add: run_events_Nil)
next
  case (Cons e evs)
  note st = run_event_stopped [OF Cons.prems, of e]
  then have "\<not> running (run_event s e)" by simp
  from Cons.IH [OF this] st show ?case
    by (auto simp: run_events_Cons)
qed

lemma run_event_conserves:
  assumes "running s" "e \<noteq> Stop"
  shows "running (run_event s e) \<and>
         total_processed (run_event s e) + total_errors (run_event s e) +
           int (length (queue (run_event s e)))
         = total_processed s + total_errors s + int (length (queue s)) + (if is_submit e then 1 else 0)"
  using assms
  by (cases e) (auto simp: submit_def worker_def split: list.splits option.splits)

lemma run_events_conserves:
  assumes "running s" "Stop \<notin> set evs"
  shows "running (run_events s evs) \<and>
         total_processed (run_events s evs) + total_errors (run_events s evs) +
           int (length (queue (run_events s evs)))
         = total_processed s + total_errors s + int (length (queue s)) +
           int (length (filter is_submit evs))"
  using assms
proof (induction evs arbitrary: s)
  case Nil
  then show ?case by (simp add: run_events_Nil)
next
  case (Cons e evs)
  then have e: "e \<noteq> Stop" and evs: "Stop \<notin> set evs" by auto
  note c = run_event_conserves [OF Cons.prems(1) e]
  then have "running (run_event s e)" by simp
  from Cons.IH [OF this evs] c show ?case
    by (auto simp: run_events_Cons)
qed

text \<open>
  C3 as the code has it. In every schedule of submissions and worker passes up to the
  call of \<open>stop\<close>, the items counted as processed, the items counted as errors and the
  items still queued add up to the number of items submitted: each is counted once or
  waits. Whatever follows \<open>stop\<close>, the status keeps the counters and the queue size it had
  when \<open>stop\<close> was called, and the worker is gone after its next pass: the items that
  waited are not drained.
\<close>

theorem stop_leaves_the_rest_queued:
  assumes "Stop \<notin> set pre"
  shows "total_processed (run_events started_queue pre) + total_errors (run_events started_queue pre)
           + int (length (queue (run_events started_queue pre)))
         = int (length (filter is_submit pre))
       \<and> get_status (run_events started_queue (pre @ Stop # post))
         = (length (queue (run_events started_queue pre)),
            total_processed (run_events started_queue pre),
            total_errors (run_events started_queue pre), False)
       \<and> (Worker \<in> set post \<longrightarrow> \<not> worker_alive (run_events started_queue (pre @ Stop # post)))"
proof -
  let ?s0 = "run_events started_queue pre :: 'a processing_queue"
  have r: "running (started_queue :: 'a processing_queue)" by (simp add: started_queue_def)
  from run_events_conserves [OF r assms]
  have c: "running ?s0"
    "total_processed ?s0 + total_errors ?s0 + int (length (queue ?s0))
       = int (length (filter is_submit pre))"
    by (simp_all add: started_queue_def)
  have s: "\<not> running (stop ?s0)" "queue (stop ?s0) = queue ?s0"
    "total_processed (stop ?s0) = total_processed ?s0" "total_errors (stop ?s0) = total_errors ?s0"
    using c(1) by (simp_all add: stop_def)
  from run_events_stopped [OF s(1), of post] s c(2)
  show ?thesis
    by (simp add: run_events_append run_events_Cons get_status_def)
qed

text \<open>
  The claim C3 fails when \<open>stop\<close> is called while items wait: three items are submitted,
  the worker has taken the first, \<open>stop\<close> clears the flag and the worker leaves its loop
  at the next test. One item is counted and two stay in the queue.
\<close>

theorem stop_before_drain_counterexample:
  "get_status (run_events started_queue
      [Submit ''a'' (\<lambda>_. None), Worker, Submit ''b'' (\<lambda>_. None), Submit ''c'' (\<lambda>_. None),
       Stop, Worker])
     = (2, 1, 0, False)
   \<and> \<not> worker_alive (run_events started_queue
      [Submit ''a'' (\<lambda>_. None), Worker, Submit ''b'' (\<lambda>_. None), Submit ''c'' (\<lambda>_. None),
       Stop, Worker])"
  by (simp add: run_events_def started_queue_def get_status_def submit_def stop_def worker_def)

theorem stop_leaves_the_rest_queued_witness:
  "Stop \<notin> set [Submit ''a'' (\<lambda>_. None), Worker, Submit ''b'' (\<lambda>_. Some ValueError), Worker,
                  Submit ''c'' (\<lambda>_. None)]
   \<and> get_status (run_events started_queue
        ([Submit ''a'' (\<lambda>_. None), Worker, Submit ''b'' (\<lambda>_. Some ValueError), Worker,
          Submit ''c'' (\<lambda>_. None)] @ Stop # [Worker]))
     = (1, 1, 1, False)
   \<and> \<not> worker_alive (run_events started_queue
        ([Submit ''a'' (\<lambda>_. None), Worker, Submit ''b'' (\<lambda>_. Some ValueError), Worker,
          Submit ''c'' (\<lambda>_. None)] @ Stop # [Worker]))"
proof -
  let ?pre = "[Submit ''a'' (\<lambda>_. None), Worker, Submit ''b'' (\<lambda>_. Some ValueError), Worker,
               Submit ''c'' (\<lambda>_. None)]"
  have n: "Stop \<notin> set ?pre" by simp
  have p: "run_events started_queue ?pre
           = \<lparr>queue = [(''c'', \<lambda>_. None)], running = True, worker_alive = True,
              total_processed = 1, total_errors = 1\<rparr>"
    by (simp add: run_events_def started_queue_def submit_def worker_def)
  from stop_leaves_the_rest_queued [OF n, of "[Worker]"] n
  show ?thesis unfolding p by simp
qed

end
